theory Spec2Isabelle
  imports Main "HOL-Library.Word"
begin

unbundle bit_operations_syntax

section \<open>JavaScript values and string operations\<close>

text \<open>
  Strings are lists of characters; a character stands for one UTF-16 code unit below 256.
  A value that may be \<^verbatim>\<open>undefined\<close> (or \<^verbatim>\<open>null\<close>) is an \<open>option\<close>. The only
  exception the modelled functions can raise is a \<^verbatim>\<open>TypeError\<close>; the \<^verbatim>\<open>SyntaxError\<close> of
  \<^verbatim>\<open>JSON.parse\<close> is caught inside \<^verbatim>\<open>parse\<close>.
\<close>

datatype error = TypeError | SyntaxError

text \<open>The array read \<^verbatim>\<open>parts[i]\<close>: \<^verbatim>\<open>undefined\<close> beyond the end.\<close>

definition at :: "'a list \<Rightarrow> nat \<Rightarrow> 'a option" where
  "at xs k = (if k < length xs then Some (xs ! k) else None)"

text \<open>\<^verbatim>\<open>str.split(sep)\<close> for a separator of one character: never an empty array.\<close>

fun split :: "char \<Rightarrow> string \<Rightarrow> string list" where
  "split sep [] = [[]]"
| "split sep (c # cs) =
     (if c = sep then [] # split sep cs
      else (case split sep cs of
              [] \<Rightarrow> [[c]]
            | t # ts \<Rightarrow> (c # t) # ts))"

text \<open>
  \<^verbatim>\<open>str.toLowerCase()\<close> on code units below 256: the capital letters are A to Z and the
  Latin-1 capitals 192 to 222 without the multiplication sign 215; the small letter of
  each is 32 higher, which is the same code with bit 5 set.
\<close>

definition isUpperCase_char :: "char \<Rightarrow> bool" where
  "isUpperCase_char c =
     (let n = (of_char c :: nat)
      in (65 \<le> n \<and> n \<le> 90) \<or> (192 \<le> n \<and> n \<le> 214) \<or> (216 \<le> n \<and> n \<le> 222))"

definition toLowerCase_char :: "char \<Rightarrow> char" where
  "toLowerCase_char c =
     (if isUpperCase_char c
      then (case c of Char b0 b1 b2 b3 b4 b5 b6 b7 \<Rightarrow> Char b0 b1 b2 b3 b4 True b6 b7)
      else c)"

definition toLowerCase :: "string \<Rightarrow> string" where
  "toLowerCase s = map toLowerCase_char s"

text \<open>
  A parsed JSON value. The number type \<open>'n\<close> is left open: no modelled function computes
  with a number, they only pass it on.
\<close>

datatype 'n json =
    JNull
  | JBool bool
  | JNumber 'n
  | JString string
  | JArray "'n json list"
  | JObject "(string \<times> 'n json) list"

text \<open>
  \<^verbatim>\<open>key in temp\<close>, for a key that is neither an array index nor a member every object
  or array inherits (the two keys \<^verbatim>\<open>parse\<close> tests are such): a \<^verbatim>\<open>TypeError\<close> on a
  primitive value, the presence of the key on an object, false on an array.
\<close>

fun js_in :: "string \<Rightarrow> 'n json \<Rightarrow> error + bool" where
  "js_in k (JObject kvs) = Inr (k \<in> set (map fst kvs))"
| "js_in k (JArray xs) = Inr False"
| "js_in k v = Inl TypeError"

text \<open>\<^verbatim>\<open>input[key]\<close> on a parsed value: \<^verbatim>\<open>undefined\<close> where the key is absent.\<close>

fun get_property :: "'n json \<Rightarrow> string \<Rightarrow> 'n json option" where
  "get_property (JObject kvs) k = map_of kvs k"
| "get_property v k = None"

text \<open>
  Modelled from the spec: \<^verbatim>\<open>NSPanelMessageUtils.hasProperty\<close> is not among the sources.
  The spec words it as "the parsed object carries a field": the value is an object and the
  key is one of its keys.
\<close>

fun hasProperty :: "'n json \<Rightarrow> string \<Rightarrow> bool" where
  "hasProperty (JObject kvs) k = (k \<in> set (map fst kvs))"
| "hasProperty v k = False"

section \<open>Events\<close>

record VersionData =
  version :: string

text \<open>
  A field of an \<^verbatim>\<open>HMIVersion\<close> holds a string, \<^verbatim>\<open>null\<close> or \<^verbatim>\<open>undefined\<close>; the three are
  told apart, since a comparison and a template literal treat them differently.
\<close>

datatype nullable = Undefined | Null | Str string

definition of_undefined :: "string option \<Rightarrow> nullable" where
  "of_undefined x = (case x of None \<Rightarrow> Undefined | Some v \<Rightarrow> Str v)"

record HMIVersion =
  version :: nullable
  internalVersion :: nullable
  model :: nullable

datatype 'n data = DataString string | DataRaw "string list" | DataJson "'n json"

text \<open>
  \<^verbatim>\<open>EventArgs\<close> with the fields of its variants (\<^verbatim>\<open>StartupEventArgs\<close>, \<^verbatim>\<open>LightEventArgs\<close>,
  \<^verbatim>\<open>FirmwareEventArgs\<close>) that the modelled functions write; \<open>None\<close> is a field that was
  never written or holds \<^verbatim>\<open>undefined\<close> or \<^verbatim>\<open>null\<close>. The field \<^verbatim>\<open>value\<close> is written \<open>value'\<close>.
\<close>

record ('n, 'rgb, 'hsv, 'date) EventArgs =
  type :: string
  date :: "'date option"
  event :: "string option"
  event2 :: "string option"
  source :: "string option"
  entityId :: "string option"
  active :: "bool option"
  value' :: "'n option"
  data :: "'n data option"
  hmiVersion :: "HMIVersion option"
  rgb :: "'rgb option"
  hsv :: "'hsv option"
  version :: "'n json option"
  status :: "string option"

text \<open>
  What the parser calls and this repository's sources do not define: the runtime's
  \<^verbatim>\<open>JSON.parse\<close> (\<open>None\<close> when it throws), \<^verbatim>\<open>Number\<close> on a string (\<open>None\<close> when the result
  is \<^verbatim>\<open>NaN\<close>) and \<^verbatim>\<open>new Date()\<close>, and the helpers \<^verbatim>\<open>NSPanelMessageUtils.toBoolean\<close>,
  \<^verbatim>\<open>NSPanelUtils.stringIsNullOrEmpty\<close> and \<^verbatim>\<open>NSPanelColorUtils.hmiPosToColor\<close>. They are
  parameters of the model.
\<close>

record ('n, 'rgb, 'hsv, 'date) runtime =
  JSON_parse :: "string \<Rightarrow> 'n json option"
  Number_of_string :: "string \<Rightarrow> 'n option"
  newDate :: "'date"
  toBoolean :: "string option \<Rightarrow> bool"
  stringIsNullOrEmpty :: "string option \<Rightarrow> bool"
  hmiPosToColor :: "'n option \<Rightarrow> 'n option \<Rightarrow> 'rgb \<times> 'hsv"

text \<open>\<^verbatim>\<open>Number(x)\<close> for a string that may be \<^verbatim>\<open>undefined\<close>: \<^verbatim>\<open>Number(undefined)\<close> is \<^verbatim>\<open>NaN\<close>.\<close>

definition Number :: "('n, 'rgb, 'hsv, 'date) runtime \<Rightarrow> string option \<Rightarrow> 'n option" where
  "Number R x = (case x of None \<Rightarrow> None | Some s \<Rightarrow> Number_of_string R s)"

text \<open>
  Modelled from the spec: \<^verbatim>\<open>nspanel-constants\<close> is not among the sources. The spec names
  the four events the comma protocol distinguishes: \<^verbatim>\<open>startup\<close>, \<^verbatim>\<open>sleepReached\<close>,
  \<^verbatim>\<open>buttonPress2\<close> and \<^verbatim>\<open>pageOpenDetail\<close>.
\<close>

definition STR_LUI_EVENT_STARTUP :: string where
  "STR_LUI_EVENT_STARTUP = ''startup''"

definition STR_LUI_EVENT_SLEEPREACHED :: string where
  "STR_LUI_EVENT_SLEEPREACHED = ''sleepReached''"

definition STR_LUI_EVENT_BUTTONPRESS2 :: string where
  "STR_LUI_EVENT_BUTTONPRESS2 = ''buttonPress2''"

definition STR_LUI_EVENT_PAGEOPENDETAIL :: string where
  "STR_LUI_EVENT_PAGEOPENDETAIL = ''pageOpenDetail''"

section \<open>NSPanelMessageParser\<close>

subsection \<open>actionStringToNumber\<close>

text \<open>The \<^verbatim>\<open>switch\<close> has no default: \<^verbatim>\<open>result\<close> stays \<^verbatim>\<open>undefined\<close>.\<close>

definition actionStringToNumber :: "string \<Rightarrow> nat option" where
  "actionStringToNumber actionString =
     (let s = toLowerCase actionString
      in if s = ''single'' then Some 1
         else if s = ''double'' then Some 2
         else if s = ''triple'' then Some 3
         else if s = ''quad'' then Some 4
         else if s = ''penta'' then Some 5
         else None)"

text \<open>
  The table as the spec words it: the five names in any letter case. \<open>same_letters s w\<close>
  holds when \<open>s\<close> is the small-letter word \<open>w\<close> with any of its letters replaced by its
  capital.
\<close>

definition capital_of :: "char \<Rightarrow> char \<Rightarrow> bool" where
  "capital_of c d = ((of_char c :: nat) + 32 = of_char d \<and> 65 \<le> (of_char c :: nat) \<and> (of_char c :: nat) \<le> 90)"

definition same_letters :: "string \<Rightarrow> string \<Rightarrow> bool" where
  "same_letters s w = list_all2 (\<lambda>c d. c = d \<or> capital_of c d) s w"

definition ActionCodeTable :: "(string \<times> nat) list" where
  "ActionCodeTable =
     [(''single'', 1), (''double'', 2), (''triple'', 3), (''quad'', 4), (''penta'', 5)]"

definition action_code :: "string \<Rightarrow> nat option" where
  "action_code s = map_option snd (find (\<lambda>(w, n). same_letters s w) ActionCodeTable)"

subsection \<open>parseEvent\<close>

text \<open>The literal an event starts from, and the fields a branch leaves unwritten.\<close>

definition emptyEventArgs :: "string \<Rightarrow> ('n, 'rgb, 'hsv, 'date) EventArgs" where
  "emptyEventArgs t =
     \<lparr>type = t, date = None, event = None, event2 = None, source = None, entityId = None,
      active = None, value' = None, data = None, hmiVersion = None, rgb = None, hsv = None,
      version = None, status = None\<rparr>"

text \<open>
  The rule after the inner \<^verbatim>\<open>switch\<close>, and the body of its \<^verbatim>\<open>number-set\<close> case:
  \<^verbatim>\<open>Number(parts[4])\<close> goes to \<^verbatim>\<open>value\<close>, or \<^verbatim>\<open>parts[4]\<close> itself to \<^verbatim>\<open>data\<close> when it is \<^verbatim>\<open>NaN\<close>.
\<close>

definition setValueOrData ::
  "('n, 'rgb, 'hsv, 'date) runtime \<Rightarrow> string option \<Rightarrow>
   ('n, 'rgb, 'hsv, 'date) EventArgs \<Rightarrow> ('n, 'rgb, 'hsv, 'date) EventArgs" where
  "setValueOrData R p eventArgs =
     (case Number R p of
        None \<Rightarrow> eventArgs\<lparr>data := map_option DataString p\<rparr>
      | Some n \<Rightarrow> eventArgs\<lparr>value' := Some n\<rparr>)"

text \<open>
  The inner \<^verbatim>\<open>switch\<close> on \<^verbatim>\<open>parts[3]\<close>. In the \<^verbatim>\<open>colorWheel\<close> case the string is split only
  when \<^verbatim>\<open>stringIsNullOrEmpty\<close> is false of it; the helper is taken to be true of
  \<^verbatim>\<open>undefined\<close>, where the model gives the empty array in either case.
\<close>

definition normalizeButtonPress2 ::
  "('n, 'rgb, 'hsv, 'date) runtime \<Rightarrow> string list \<Rightarrow>
   ('n, 'rgb, 'hsv, 'date) EventArgs \<Rightarrow> ('n, 'rgb, 'hsv, 'date) EventArgs" where
  "normalizeButtonPress2 R parts eventArgs =
     (if at parts 3 = Some ''button'' then
        eventArgs\<lparr>source := at parts 3, event2 := at parts 2, entityId := at parts 2\<rparr>
      else if at parts 3 = Some ''OnOff'' then
        eventArgs\<lparr>source := at parts 2, entityId := at parts 2,
          active := (if toBoolean R (at parts 4) then Some True else None)\<rparr>
      else if at parts 3 = Some ''number-set'' then
        setValueOrData R (at parts 4) (eventArgs\<lparr>entityId := at parts 2, source := at parts 2\<rparr>)
      else if at parts 3 = Some ''colorWheel'' then
        (let lightEventArgs = eventArgs\<lparr>event2 := Some ''color''\<rparr>;
             colorDataStr = at parts 4;
             colorDataArr = (if stringIsNullOrEmpty R colorDataStr then []
                             else (case colorDataStr of None \<Rightarrow> [] | Some s \<Rightarrow> split CHR ''|'' s))
         in if length colorDataArr = 3 then
              (let colorData = map (\<lambda>v. Number R (Some v)) colorDataArr;
                   colorTuple = hmiPosToColor R (colorData ! 0) (colorData ! 1)
               in lightEventArgs\<lparr>rgb := Some (fst colorTuple), hsv := Some (snd colorTuple)\<rparr>)
            else lightEventArgs)
      else if at parts 3 = Some ''positionSlider'' then eventArgs\<lparr>event2 := Some ''position''\<rparr>
      else if at parts 3 = Some ''tiltSlider'' then eventArgs\<lparr>event2 := Some ''tilt''\<rparr>
      else eventArgs)"

definition parseEvent ::
  "('n, 'rgb, 'hsv, 'date) runtime \<Rightarrow> string list \<Rightarrow> ('n, 'rgb, 'hsv, 'date) EventArgs" where
  "parseEvent R parts =
     (let eventArgs = (emptyEventArgs ''event'')
            \<lparr>date := Some (newDate R), event := at parts 1, source := at parts 2\<rparr>
      in if at parts 1 = Some STR_LUI_EVENT_STARTUP then
           eventArgs\<lparr>source := Some ''hmi'',
             hmiVersion := Some \<lparr>HMIVersion.version = Null,
               internalVersion = of_undefined (at parts 2), model = of_undefined (at parts 3)\<rparr>\<rparr>
         else if at parts 1 = Some STR_LUI_EVENT_SLEEPREACHED then eventArgs
         else if at parts 1 = Some STR_LUI_EVENT_BUTTONPRESS2 then
           (let normalized = normalizeButtonPress2 R parts (eventArgs\<lparr>event2 := at parts 3\<rparr>)
            in if length parts = 5 then setValueOrData R (at parts 4) normalized else normalized)
         else if at parts 1 = Some STR_LUI_EVENT_PAGEOPENDETAIL then
           eventArgs\<lparr>entityId := at parts 3\<rparr>
         else eventArgs\<lparr>data := Some (DataRaw (drop 2 parts))\<rparr>)"

subsection \<open>parseCustomMessage, parseNluiDriverEvent, parseBerryDriverUpdateEvent\<close>

definition parseCustomMessage ::
  "('n, 'rgb, 'hsv, 'date) runtime \<Rightarrow> string list \<Rightarrow> ('n, 'rgb, 'hsv, 'date) EventArgs" where
  "parseCustomMessage R parts =
     (let result = (emptyEventArgs ''event'')\<lparr>event := Some '''', event2 := Some '''', source := Some ''''\<rparr>
      in if at parts 0 = Some ''event'' then parseEvent R parts else result)"

text \<open>
  The other constants of \<^verbatim>\<open>nspanel-constants\<close>, whose values neither the sources nor the
  spec give: a parameter \<open>K\<close> of every function that reads one. Each is a string.
\<close>

record constants =
  FIRMWARE_TASMOTA :: string
  FIRMWARE_BERRYDRIVER :: string
  FIRMWARE_HMI :: string
  STR_UPDATE_FIRMWARE_TASMOTA :: string
  STR_UPDATE_FIRMWARE_BERRYDRIVER :: string
  STR_UPDATE_FIRMWARE_HMI :: string
  STR_UPDATE_NOTIFY_PREFIX :: string
  STR_UPDATE_NOTIFY_ICON :: string
  STR_LUI_NOTIFY_ACTION_YES :: string
  STR_LUI_CMD_SUCCESS :: string
  STR_LUI_CMD_ACTIVATE_STARTUP_PAGE :: string
  STR_LUI_LINEBREAK :: string
  STR_LUI_COLOR_RED :: string
  STR_LUI_COLOR_GREEN :: string
  STR_BERRYDRIVER_CMD_FLASHNEXTION :: string
  STR_BERRYDRIVER_CMD_UPDATEDRIVER :: string
  STR_BERRYDRIVER_CMD_GETVERSION :: string
  STR_TASMOTA_CMD_BACKLOG :: string
  STR_TASMOTA_CMD_RESTART :: string
  STR_TASMOTA_PARAM_RESTART_SAVE_TO_FLASH :: string
  STR_TASMOTA_CMD_OTAURL :: string
  STR_TASMOTA_CMD_UPGRADE :: string
  STR_TASMOTA_CMD_STATUS :: string

definition parseNluiDriverEvent ::
  "constants \<Rightarrow> 'n json \<Rightarrow> ('n, 'rgb, 'hsv, 'date) EventArgs option" where
  "parseNluiDriverEvent K input =
     (if hasProperty input ''nlui_driver_version'' then
        (case get_property input ''nlui_driver_version'' of
           None \<Rightarrow> None
         | Some JNull \<Rightarrow> None
         | Some v \<Rightarrow>
             Some ((emptyEventArgs ''fw'')
               \<lparr>source := Some (FIRMWARE_BERRYDRIVER K), event := Some ''version'',
                version := Some v\<rparr>))
      else None)"

text \<open>
  \<^verbatim>\<open>STR_LUI_CMD_SUCCESS === cmdResult\<close> holds for a string equal to the constant and for
  nothing else; the status is \<^verbatim>\<open>null\<close> otherwise.
\<close>

definition parseBerryDriverUpdateEvent ::
  "constants \<Rightarrow> 'n json \<Rightarrow> ('n, 'rgb, 'hsv, 'date) EventArgs option" where
  "parseBerryDriverUpdateEvent K input =
     (let key_source =
            (if hasProperty input (STR_BERRYDRIVER_CMD_UPDATEDRIVER K)
             then Some (STR_BERRYDRIVER_CMD_UPDATEDRIVER K, FIRMWARE_BERRYDRIVER K)
             else if hasProperty input (STR_BERRYDRIVER_CMD_FLASHNEXTION K)
             then Some (STR_BERRYDRIVER_CMD_FLASHNEXTION K, FIRMWARE_HMI K)
             else None)
      in case key_source of
           None \<Rightarrow> None
         | Some (key, src) \<Rightarrow>
             (let cmdResult = get_property input key
              in Some ((emptyEventArgs ''fw'')
                   \<lparr>source := Some src, event := Some ''update'',
                    status := (if cmdResult = Some (JString (STR_LUI_CMD_SUCCESS K))
                               then Some ''success'' else None)\<rparr>)))"

subsection \<open>parse\<close>

text \<open>
  The body of the \<^verbatim>\<open>try\<close> block. \<^verbatim>\<open>temp.CustomRecv.split(',')\<close> raises a \<^verbatim>\<open>TypeError\<close>
  unless the field holds a string. In every branch the assignment to \<^verbatim>\<open>result\<close> is the
  last step, so an exception leaves \<^verbatim>\<open>result\<close> at its initial \<^verbatim>\<open>null\<close>.
\<close>

definition parse_try ::
  "('n, 'rgb, 'hsv, 'date) runtime \<Rightarrow> constants \<Rightarrow> string \<Rightarrow>
   error + ('n, 'rgb, 'hsv, 'date) EventArgs option" where
  "parse_try R K payloadStr =
     (case JSON_parse R payloadStr of
        None \<Rightarrow> Inl SyntaxError
      | Some temp \<Rightarrow>
          (case js_in ''CustomRecv'' temp of
             Inl e \<Rightarrow> Inl e
           | Inr True \<Rightarrow>
               (case get_property temp ''CustomRecv'' of
                  Some (JString s) \<Rightarrow> Inr (Some (parseCustomMessage R (split CHR '','' s)))
                | _ \<Rightarrow> Inl TypeError)
           | Inr False \<Rightarrow>
               (case js_in ''nlui_driver_version'' temp of
                  Inl e \<Rightarrow> Inl e
                | Inr True \<Rightarrow> Inr (parseNluiDriverEvent K temp)
                | Inr False \<Rightarrow>
                    Inr (Some ((emptyEventArgs ''unknown'')
                      \<lparr>source := Some '''', event := Some '''', data := Some (DataJson temp)\<rparr>)))))"

text \<open>
  \<^verbatim>\<open>result.data = payloadStr\<close>: writing a field of \<^verbatim>\<open>null\<close> raises a \<^verbatim>\<open>TypeError\<close>.
\<close>

definition assign_data ::
  "('n, 'rgb, 'hsv, 'date) EventArgs option \<Rightarrow> 'n data \<Rightarrow>
   error + ('n, 'rgb, 'hsv, 'date) EventArgs option" where
  "assign_data result d =
     (case result of
        None \<Rightarrow> Inl TypeError
      | Some r \<Rightarrow> Inr (Some (r\<lparr>data := Some d\<rparr>)))"

definition parse ::
  "('n, 'rgb, 'hsv, 'date) runtime \<Rightarrow> constants \<Rightarrow> string \<Rightarrow>
   error + ('n, 'rgb, 'hsv, 'date) EventArgs option" where
  "parse R K payloadStr =
     (case parse_try R K payloadStr of
        Inr result \<Rightarrow> Inr result
      | Inl err \<Rightarrow> assign_data None (DataString payloadStr))"

section \<open>NSPanelUpdater\<close>

subsection \<open>State\<close>

text \<open>
  \<^verbatim>\<open>VersionAcquisitionStatus\<close>: a bit set, on which JavaScript computes in 32 bits.
\<close>

type_synonym VersionAcquisitionStatus = "32 word"

definition TasmotaVersionCurrent :: VersionAcquisitionStatus where
  "TasmotaVersionCurrent = 1"

definition TasmotaVersionLatest :: VersionAcquisitionStatus where
  "TasmotaVersionLatest = 2"

definition BerryDriverVersionCurrent :: VersionAcquisitionStatus where
  "BerryDriverVersionCurrent = 4"

definition BerryDriverVersionLatest :: VersionAcquisitionStatus where
  "BerryDriverVersionLatest = 8"

definition HmiVersionCurrent :: VersionAcquisitionStatus where
  "HmiVersionCurrent = 16"

definition HmiVersionLatest :: VersionAcquisitionStatus where
  "HmiVersionLatest = 32"

definition AllAcquired :: VersionAcquisitionStatus where
  "AllAcquired = NOT (push_bit 6 (NOT 0))"

definition TasmotaUpdateAvailable :: VersionAcquisitionStatus where
  "TasmotaUpdateAvailable = 64"

definition BerryDriverUpdateAvailable :: VersionAcquisitionStatus where
  "BerryDriverUpdateAvailable = 128"

definition HmiUpdateAvailable :: VersionAcquisitionStatus where
  "HmiUpdateAvailable = 256"

record PanelVersionData =
  tasmota :: "VersionData option"
  berryDriver :: "VersionData option"
  hmi :: "HMIVersion option"

text \<open>
  The calls the updater makes on its two collaborators. A collaborator is the list of the
  calls it has received, or \<open>None\<close> when the field is \<^verbatim>\<open>null\<close>: the updater calls both
  through \<^verbatim>\<open>?.\<close>, which does nothing on \<^verbatim>\<open>null\<close>.
\<close>

datatype mqtt_call =
    sendCommandToPanel string string
  | sendToPanel string

record NotifyData =
  notifyId :: string
  icon :: string
  text' :: string
  heading :: string
  headingColor :: string
  timeout :: nat
  fontSize :: nat
  cancelColor :: string
  cancelText :: string
  okColor :: string
  okText :: string

text \<open>
  The fields of an \<^verbatim>\<open>NSPanelUpdater\<close>, without the leading underscore of their names;
  \<^verbatim>\<open>_updateVersionData.versions.current\<close> and \<^verbatim>\<open>.latest\<close> are \<open>current\<close> and \<open>latest\<close>,
  \<^verbatim>\<open>_options.autoUpdate\<close> is \<open>autoUpdate\<close>, and \<open>requests\<close> lists the URLs \<^verbatim>\<open>axios.get\<close> was
  called with. The task stack grows at its end, as \<^verbatim>\<open>push\<close> and \<^verbatim>\<open>pop\<close> work.
\<close>

record NSPanelUpdater =
  updateInProgress :: bool
  updateTaskStack :: "string list"
  current :: PanelVersionData
  latest :: PanelVersionData
  versionAcquisitionStatus :: VersionAcquisitionStatus
  mqttHandler :: "mqtt_call list option"
  panelController :: "NotifyData list option"
  autoUpdate :: "bool option"
  requests :: "string list"

definition URL_TASMOTA_RELEASES_LATEST_META :: string where
  "URL_TASMOTA_RELEASES_LATEST_META = ''https://api.github.com/repositories/80286288/releases/latest''"

definition URL_BERRYDRIVER_LATEST :: string where
  "URL_BERRYDRIVER_LATEST =
     ''https://raw.githubusercontent.com/joBr99/nspanel-lovelace-ui/main/tasmota/autoexec.be''"

definition URL_NLUI_LATEST :: string where
  "URL_NLUI_LATEST =
     ''https://raw.githubusercontent.com/joBr99/nspanel-lovelace-ui/main/apps/nspanel-lovelace-ui/nspanel-lovelace-ui.py''"

definition mqtt_send :: "mqtt_call \<Rightarrow> NSPanelUpdater \<Rightarrow> NSPanelUpdater" where
  "mqtt_send c s = s\<lparr>mqttHandler := map_option (\<lambda>calls. calls @ [c]) (mqttHandler s)\<rparr>"

text \<open>The event the updater is given: the fields of \<^verbatim>\<open>FirmwareEventArgs\<close> it reads.\<close>

record FirmwareEventArgs =
  fw_event :: string
  fw_source :: string
  fw_version :: "string option"
  fw_status :: "string option"

subsection \<open>The update tasks\<close>

definition updateHmi :: "constants \<Rightarrow> NSPanelUpdater \<Rightarrow> NSPanelUpdater" where
  "updateHmi K s =
     (if updateInProgress s then s\<lparr>updateTaskStack := updateTaskStack s @ [FIRMWARE_HMI K]\<rparr>
      else mqtt_send
             (sendCommandToPanel (STR_BERRYDRIVER_CMD_FLASHNEXTION K) ''http://nspanel.pky.eu/lui-release.tft'')
             (s\<lparr>updateInProgress := True\<rparr>))"

definition updateBerryDriver :: "constants \<Rightarrow> NSPanelUpdater \<Rightarrow> NSPanelUpdater" where
  "updateBerryDriver K s =
     (if updateInProgress s then s\<lparr>updateTaskStack := updateTaskStack s @ [FIRMWARE_BERRYDRIVER K]\<rparr>
      else (let updCmd = STR_TASMOTA_CMD_BACKLOG K @ '' '' @ STR_BERRYDRIVER_CMD_UPDATEDRIVER K @ '' ''
                  @ URL_BERRYDRIVER_LATEST @ ''; '' @ STR_TASMOTA_CMD_RESTART K @ '' ''
                  @ STR_TASMOTA_PARAM_RESTART_SAVE_TO_FLASH K
            in mqtt_send (sendCommandToPanel (STR_TASMOTA_CMD_BACKLOG K) updCmd)
                 (s\<lparr>updateInProgress := True\<rparr>)))"

definition updateTasmotaFirmware :: "constants \<Rightarrow> NSPanelUpdater \<Rightarrow> NSPanelUpdater" where
  "updateTasmotaFirmware K s =
     (if updateInProgress s then s\<lparr>updateTaskStack := updateTaskStack s @ [FIRMWARE_TASMOTA K]\<rparr>
      else mqtt_send (sendCommandToPanel (STR_TASMOTA_CMD_UPGRADE K) ''1'')
             (mqtt_send
                (sendCommandToPanel (STR_TASMOTA_CMD_OTAURL K)
                   ''http://ota.tasmota.com/tasmota32/release/tasmota32-nspanel.bin'')
                (s\<lparr>updateInProgress := True\<rparr>)))"

text \<open>\<^verbatim>\<open>pop\<close> takes the last element; on an empty array it returns \<^verbatim>\<open>undefined\<close>.\<close>

definition pop :: "'a list \<Rightarrow> 'a option \<times> 'a list" where
  "pop xs = (if xs = [] then (None, []) else (Some (last xs), butlast xs))"

definition processUpdateTasks :: "constants \<Rightarrow> NSPanelUpdater \<Rightarrow> NSPanelUpdater" where
  "processUpdateTasks K s =
     (let (fwTask, rest) = pop (updateTaskStack s);
          s1 = s\<lparr>updateTaskStack := rest\<rparr>
      in if fwTask = Some (FIRMWARE_TASMOTA K) then updateTasmotaFirmware K s1
         else if fwTask = Some (FIRMWARE_BERRYDRIVER K) then updateBerryDriver K s1
         else if fwTask = Some (FIRMWARE_HMI K) then updateHmi K s1
         else s1)"

subsection \<open>Version reports\<close>

text \<open>\<^verbatim>\<open>str.indexOf(c)\<close>: \<open>None\<close> for -1.\<close>

fun indexOf :: "string \<Rightarrow> char \<Rightarrow> nat option" where
  "indexOf [] c = None"
| "indexOf (x # xs) c = (if x = c then Some 0 else map_option Suc (indexOf xs c))"

definition setTasmotaVersion :: "string option \<Rightarrow> NSPanelUpdater \<Rightarrow> NSPanelUpdater" where
  "setTasmotaVersion tasmotaVersion s =
     (case tasmotaVersion of
        None \<Rightarrow> s
      | Some v \<Rightarrow>
          (let tV = (case indexOf v CHR ''('' of
                       None \<Rightarrow> v
                     | Some k \<Rightarrow> if 0 < k then take k v else v)
           in s\<lparr>current := (current s)\<lparr>tasmota := Some \<lparr>VersionData.version = tV\<rparr>\<rparr>,
                versionAcquisitionStatus := versionAcquisitionStatus s OR TasmotaVersionCurrent\<rparr>))"

definition setBerryDriverVersion :: "string option \<Rightarrow> NSPanelUpdater \<Rightarrow> NSPanelUpdater" where
  "setBerryDriverVersion v s =
     (case v of
        None \<Rightarrow> s
      | Some ver \<Rightarrow>
          s\<lparr>current := (current s)\<lparr>berryDriver := Some \<lparr>VersionData.version = ver\<rparr>\<rparr>,
            versionAcquisitionStatus := versionAcquisitionStatus s OR BerryDriverVersionCurrent\<rparr>)"

definition setHmiVersion :: "HMIVersion \<Rightarrow> NSPanelUpdater \<Rightarrow> NSPanelUpdater" where
  "setHmiVersion v s =
     s\<lparr>current := (current s)\<lparr>hmi := Some v\<rparr>,
       versionAcquisitionStatus := versionAcquisitionStatus s OR HmiVersionCurrent\<rparr>"

text \<open>
  The three callbacks of \<^verbatim>\<open>getLatestVersion\<close>, each given what it reads of the response:
  the release's \<^verbatim>\<open>tag_name\<close>, the \<^verbatim>\<open>version\<close> group of \<^verbatim>\<open>BERRY_DRIVER_REGEX\<close>, and the
  \<^verbatim>\<open>internalVersion\<close> and \<^verbatim>\<open>version\<close> groups of \<^verbatim>\<open>NLUI_HMI_VERSION_REGEX\<close>; \<open>None\<close> when the
  field or the match is missing. An empty \<^verbatim>\<open>internalVersion\<close> group is falsy.
\<close>

definition onTasmotaRelease :: "string option \<Rightarrow> NSPanelUpdater \<Rightarrow> NSPanelUpdater" where
  "onTasmotaRelease tag_name s =
     (case tag_name of
        None \<Rightarrow> s
      | Some t \<Rightarrow>
          s\<lparr>latest := (latest s)\<lparr>tasmota := Some \<lparr>VersionData.version = drop 1 t\<rparr>\<rparr>,
            versionAcquisitionStatus := versionAcquisitionStatus s OR TasmotaVersionLatest\<rparr>)"

definition onBerryDriverSource :: "string option \<Rightarrow> NSPanelUpdater \<Rightarrow> NSPanelUpdater" where
  "onBerryDriverSource version_group s =
     (case version_group of
        None \<Rightarrow> s
      | Some v \<Rightarrow>
          s\<lparr>latest := (latest s)\<lparr>berryDriver := Some \<lparr>VersionData.version = v\<rparr>\<rparr>,
            versionAcquisitionStatus := versionAcquisitionStatus s OR BerryDriverVersionLatest\<rparr>)"

definition onNluiSource :: "(string \<times> string) option \<Rightarrow> NSPanelUpdater \<Rightarrow> NSPanelUpdater" where
  "onNluiSource groups s =
     (case groups of
        None \<Rightarrow> s
      | Some (internalVersion_group, version_group) \<Rightarrow>
          if internalVersion_group = [] then s
          else s\<lparr>latest := (latest s)\<lparr>hmi := Some
                    \<lparr>HMIVersion.version = Str version_group,
                     internalVersion = Str internalVersion_group, model = Undefined\<rparr>\<rparr>,
                 versionAcquisitionStatus := versionAcquisitionStatus s OR HmiVersionLatest\<rparr>)"

subsection \<open>onFirmwareEvent and onUpdateNotificationResult\<close>

definition onFirmwareEvent ::
  "constants \<Rightarrow> FirmwareEventArgs option \<Rightarrow> NSPanelUpdater \<Rightarrow> NSPanelUpdater" where
  "onFirmwareEvent K fwEvent s =
     (case fwEvent of
        None \<Rightarrow> s
      | Some ev \<Rightarrow>
          if fw_event ev = ''version'' then
            (if fw_source ev = STR_UPDATE_FIRMWARE_TASMOTA K then setTasmotaVersion (fw_version ev) s
             else if fw_source ev = STR_UPDATE_FIRMWARE_BERRYDRIVER K
             then setBerryDriverVersion (fw_version ev) s
             else s)
          else if fw_event ev = ''update'' then
            (if fw_status ev = Some ''success''
             then processUpdateTasks K (s\<lparr>updateInProgress := False\<rparr>)
             else s)
          else s)"

text \<open>
  \<^verbatim>\<open>notifyId.indexOf(prefix) === 0\<close> holds when \<^verbatim>\<open>notifyId\<close> (here \<open>notifyId'\<close>) starts with the
  prefix.
  \<^verbatim>\<open>stringIsNullOrEmpty\<close> is the helper the parser's runtime has, a parameter here too.
\<close>

definition onUpdateNotificationResult ::
  "constants \<Rightarrow> (string option \<Rightarrow> bool) \<Rightarrow> string \<Rightarrow> string \<Rightarrow> NSPanelUpdater \<Rightarrow> NSPanelUpdater" where
  "onUpdateNotificationResult K isNullOrEmpty notifyId' action s =
     (if \<not> isNullOrEmpty (Some notifyId') \<and> \<not> isNullOrEmpty (Some action)
         \<and> STR_LUI_NOTIFY_ACTION_YES K = action
      then
        (let confirmedFirmware =
               (if take (length (STR_UPDATE_NOTIFY_PREFIX K)) notifyId' = STR_UPDATE_NOTIFY_PREFIX K
                then Some (drop (length (STR_UPDATE_NOTIFY_PREFIX K)) notifyId') else None);
             s1 = (if confirmedFirmware = Some (STR_UPDATE_FIRMWARE_TASMOTA K)
                   then s\<lparr>updateTaskStack := updateTaskStack s @ [FIRMWARE_TASMOTA K]\<rparr>
                   else if confirmedFirmware = Some (STR_UPDATE_FIRMWARE_BERRYDRIVER K)
                   then s\<lparr>updateTaskStack := updateTaskStack s @ [FIRMWARE_BERRYDRIVER K]\<rparr>
                   else if confirmedFirmware = Some (STR_UPDATE_FIRMWARE_HMI K)
                   then s\<lparr>updateTaskStack := updateTaskStack s @ [FIRMWARE_HMI K]\<rparr>
                   else s)
         in processUpdateTasks K s1)
      else s)"

subsection \<open>Acquiring the versions\<close>

text \<open>
  What the updater calls and the sources do not define: \<^verbatim>\<open>semver.gt\<close> of the semver
  package, which raises a \<^verbatim>\<open>TypeError\<close> on a string that is no semantic version (\<open>Inl\<close>)
  and answers otherwise (\<open>Inr\<close>); the translation function \<^verbatim>\<open>_i18n\<close> the constructor is
  given; \<^verbatim>\<open>NSPanelUtils.stringIsNullOrEmpty\<close>; and of the runtime's conversion of a string to
  a number its sign, which is all a comparison with \<^verbatim>\<open>null\<close> needs.
\<close>

datatype sign = NaN | Negative | Zero | Positive

record library =
  semver_gt :: "string \<Rightarrow> string \<Rightarrow> error + bool"
  i18n :: "string \<Rightarrow> string"
  isNullOrEmpty :: "string option \<Rightarrow> bool"
  sign_of_Number :: "string \<Rightarrow> sign"

text \<open>
  \<^verbatim>\<open>a < b\<close> on two strings compares them code unit by code unit; \<^verbatim>\<open>a > b\<close> is \<^verbatim>\<open>b < a\<close>.
  When an operand is no string, both are converted to numbers: \<^verbatim>\<open>undefined\<close> becomes
  \<^verbatim>\<open>NaN\<close>, with which every comparison is false, and \<^verbatim>\<open>null\<close> becomes 0.
\<close>

fun js_string_less :: "string \<Rightarrow> string \<Rightarrow> bool" where
  "js_string_less [] [] = False"
| "js_string_less [] (y # ys) = True"
| "js_string_less (x # xs) [] = False"
| "js_string_less (x # xs) (y # ys) =
     (if (of_char x :: nat) < of_char y then True
      else if (of_char y :: nat) < of_char x then False
      else js_string_less xs ys)"

fun js_gt :: "library \<Rightarrow> nullable \<Rightarrow> nullable \<Rightarrow> bool" where
  "js_gt L (Str x) (Str y) = js_string_less y x"
| "js_gt L Undefined b = False"
| "js_gt L a Undefined = False"
| "js_gt L Null Null = False"
| "js_gt L (Str x) Null = (sign_of_Number L x = Positive)"
| "js_gt L Null (Str y) = (sign_of_Number L y = Negative)"

text \<open>
  The promise \<^verbatim>\<open>_acquireVersions\<close> returns; \<open>Failed\<close> is a rejection with an exception its
  executor raised. \<^verbatim>\<open>resolve\<close> and \<^verbatim>\<open>reject\<close> do nothing on a promise that is settled.
\<close>

datatype promise =
    Pending
  | Resolved VersionAcquisitionStatus
  | Rejected VersionAcquisitionStatus
  | Failed error

definition settle :: "promise \<Rightarrow> promise \<Rightarrow> promise" where
  "settle p outcome = (if p = Pending then outcome else p)"

text \<open>
  The variables of one call of \<^verbatim>\<open>_acquireVersions\<close>: the counter \<^verbatim>\<open>i\<close>, the promise, and
  the delay in milliseconds of the \<^verbatim>\<open>setTimeout\<close> that is waiting, if one is.
\<close>

record Acquisition =
  acq_i :: int
  promise :: promise
  timer :: "nat option"

text \<open>
  One call of \<^verbatim>\<open>waitForDataAcquisition\<close>. Reading \<^verbatim>\<open>.version\<close> of a version record that
  is still \<^verbatim>\<open>null\<close> raises a \<^verbatim>\<open>TypeError\<close>, and \<^verbatim>\<open>semver.gt\<close> may raise one; nothing
  catches either, so the exception ends the call. \<open>Inl\<close> holds the exception and the
  updater and the variables as the call leaves them: the flags set before the exception
  stay set, \<^verbatim>\<open>resolve\<close> is not reached and no timer is set.
\<close>

type_synonym outcome =
  "(error \<times> NSPanelUpdater \<times> Acquisition) + (NSPanelUpdater \<times> Acquisition)"

definition set_flag :: "bool \<Rightarrow> VersionAcquisitionStatus \<Rightarrow> NSPanelUpdater \<Rightarrow> NSPanelUpdater" where
  "set_flag b flag s =
     (if b then s\<lparr>versionAcquisitionStatus := versionAcquisitionStatus s OR flag\<rparr> else s)"

definition waitForDataAcquisition ::
  "library \<Rightarrow> NSPanelUpdater \<times> Acquisition \<Rightarrow> outcome" where
  "waitForDataAcquisition L sa =
     (let s = fst sa; a = snd sa
      in if versionAcquisitionStatus s AND AllAcquired = AllAcquired then
           (case (tasmota (latest s), tasmota (current s)) of
              (Some lt, Some ct) \<Rightarrow>
                (case semver_gt L (VersionData.version lt) (VersionData.version ct) of
                   Inl e \<Rightarrow> Inl (e, s, a)
                 | Inr newer \<Rightarrow>
                     (let s1 = set_flag newer TasmotaUpdateAvailable s
                      in case (berryDriver (latest s1), berryDriver (current s1)) of
                           (Some lb, Some cb) \<Rightarrow>
                             (let s2 = set_flag
                                         (js_string_less (VersionData.version cb) (VersionData.version lb))
                                         BerryDriverUpdateAvailable s1
                              in case (hmi (latest s2), hmi (current s2)) of
                                   (Some lh, Some ch) \<Rightarrow>
                                     (let s3 = set_flag
                                                 (js_gt L (internalVersion lh) (internalVersion ch))
                                                 HmiUpdateAvailable s2
                                      in Inr (s3, a\<lparr>promise := settle (promise a)
                                                     (Resolved (versionAcquisitionStatus s3))\<rparr>))
                                 | _ \<Rightarrow> Inl (TypeError, s2, a))
                         | _ \<Rightarrow> Inl (TypeError, s1, a)))
            | _ \<Rightarrow> Inl (TypeError, s, a))
         else
           (let a1 = a\<lparr>timer := Some 1000, acq_i := acq_i a - 1\<rparr>
            in Inr (s, if acq_i a1 = 0
                       then a1\<lparr>promise := settle (promise a1) (Rejected (versionAcquisitionStatus s))\<rparr>
                       else a1)))"

definition getCurrentTasmotaVersion :: "constants \<Rightarrow> NSPanelUpdater \<Rightarrow> NSPanelUpdater" where
  "getCurrentTasmotaVersion K s = mqtt_send (sendCommandToPanel (STR_TASMOTA_CMD_STATUS K) ''2'') s"

definition getCurrentBerryDriverVersion :: "constants \<Rightarrow> NSPanelUpdater \<Rightarrow> NSPanelUpdater" where
  "getCurrentBerryDriverVersion K s =
     mqtt_send (sendCommandToPanel (STR_BERRYDRIVER_CMD_GETVERSION K) ''x'') s"

definition getCurrentHmiVersion :: "constants \<Rightarrow> NSPanelUpdater \<Rightarrow> NSPanelUpdater" where
  "getCurrentHmiVersion K s = mqtt_send (sendToPanel (STR_LUI_CMD_ACTIVATE_STARTUP_PAGE K)) s"

definition getLatestVersion :: "NSPanelUpdater \<Rightarrow> NSPanelUpdater" where
  "getLatestVersion s =
     s\<lparr>requests := requests s
          @ [URL_TASMOTA_RELEASES_LATEST_META, URL_BERRYDRIVER_LATEST, URL_NLUI_LATEST]\<rparr>"

text \<open>
  \<^verbatim>\<open>_acquireVersions\<close> up to its \<^verbatim>\<open>return\<close>: the promise's executor makes the first call of
  \<^verbatim>\<open>waitForDataAcquisition\<close> at once, and an exception of that call rejects the promise.
\<close>

definition acquireVersions ::
  "constants \<Rightarrow> library \<Rightarrow> NSPanelUpdater \<Rightarrow> NSPanelUpdater \<times> Acquisition" where
  "acquireVersions K L s =
     (let s1 = getLatestVersion
                 (getCurrentHmiVersion K
                   (getCurrentBerryDriverVersion K
                     (getCurrentTasmotaVersion K (s\<lparr>versionAcquisitionStatus := 0\<rparr>))));
          a = \<lparr>acq_i = 10, promise = Pending, timer = None\<rparr>
      in case waitForDataAcquisition L (s1, a) of
           Inl (e, s2, a2) \<Rightarrow> (s2, a2\<lparr>promise := Failed e\<rparr>)
         | Inr sa \<Rightarrow> sa)"

subsection \<open>checkForUpdates\<close>

text \<open>What a template literal or a string concatenation makes of a value that may be absent.\<close>

fun js_string :: "nullable \<Rightarrow> string" where
  "js_string Undefined = ''undefined''"
| "js_string Null = ''null''"
| "js_string (Str v) = v"

definition showUpdateNotification ::
  "constants \<Rightarrow> library \<Rightarrow> string \<Rightarrow> string \<Rightarrow> nullable \<Rightarrow> string \<Rightarrow>
   NSPanelUpdater \<Rightarrow> NSPanelUpdater" where
  "showUpdateNotification K L notifyId' notifyTextMain currentVersion latestVersion s =
     (let instruction = notifyTextMain @ STR_LUI_LINEBREAK K @ STR_LUI_LINEBREAK K
            @ i18n L ''nspanel-controller.panel.currentFirmwareVersionPrefix''
            @ js_string currentVersion @ STR_LUI_LINEBREAK K
            @ i18n L ''nspanel-controller.panel.newFirmwareVersionPrefix''
            @ latestVersion @ STR_LUI_LINEBREAK K @ STR_LUI_LINEBREAK K
            @ i18n L ''nspanel-controller.panel.newFirmwarPerformUpdate'';
          notifyData = \<lparr>notifyId = STR_UPDATE_NOTIFY_PREFIX K @ notifyId',
            icon = STR_UPDATE_NOTIFY_ICON K,
            text' = instruction,
            heading = i18n L ''nspanel-controller.panel.newFirmwareTitle'',
            headingColor = STR_LUI_COLOR_RED K,
            timeout = 0,
            fontSize = 0,
            cancelColor = STR_LUI_COLOR_RED K,
            cancelText = i18n L ''nspanel-controller.panel.btnTextNo'',
            okColor = STR_LUI_COLOR_GREEN K,
            okText = i18n L ''nspanel-controller.panel.btnTextYes''\<rparr>
      in s\<lparr>panelController := map_option (\<lambda>shown. shown @ [notifyData]) (panelController s)\<rparr>)"

text \<open>
  The callback \<^verbatim>\<open>checkForUpdates\<close> gives to \<^verbatim>\<open>then\<close>. The four variables \<^verbatim>\<open>notifyId\<close>,
  \<^verbatim>\<open>notifyTextMain\<close>, \<^verbatim>\<open>currentVersion\<close> and \<^verbatim>\<open>latestVersion\<close> are written together, so they
  are one optional tuple here; each of the three \<^verbatim>\<open>if\<close> blocks overwrites it.
\<close>

type_synonym notification = "string \<times> string \<times> nullable \<times> string"

definition hmiNotification ::
  "constants \<Rightarrow> library \<Rightarrow> NSPanelUpdater \<Rightarrow> notification option \<Rightarrow> error + notification option" where
  "hmiNotification K L s n =
     (if versionAcquisitionStatus s AND HmiUpdateAvailable \<noteq> 0 then
        (case (hmi (current s), hmi (latest s)) of
           (Some ch, Some lh) \<Rightarrow>
             Inr (Some (STR_UPDATE_FIRMWARE_HMI K,
                        i18n L ''nspanel-controller.panel.newHmiTextMain'',
                        internalVersion ch,
                        js_string (HMIVersion.version lh) @ '' (''
                          @ js_string (internalVersion lh) @ '')''))
         | _ \<Rightarrow> Inl TypeError)
      else Inr n)"

definition berryDriverNotification ::
  "constants \<Rightarrow> library \<Rightarrow> NSPanelUpdater \<Rightarrow> notification option \<Rightarrow> error + notification option" where
  "berryDriverNotification K L s n =
     (if versionAcquisitionStatus s AND BerryDriverUpdateAvailable \<noteq> 0 then
        (case (berryDriver (current s), berryDriver (latest s)) of
           (Some cb, Some lb) \<Rightarrow>
             Inr (Some (STR_UPDATE_FIRMWARE_BERRYDRIVER K,
                        i18n L ''nspanel-controller.panel.newBerryDriverTextMain'',
                        Str (VersionData.version cb),
                        VersionData.version lb))
         | _ \<Rightarrow> Inl TypeError)
      else Inr n)"

definition tasmotaNotification ::
  "constants \<Rightarrow> library \<Rightarrow> NSPanelUpdater \<Rightarrow> notification option \<Rightarrow> error + notification option" where
  "tasmotaNotification K L s n =
     (if versionAcquisitionStatus s AND TasmotaUpdateAvailable \<noteq> 0 then
        (case (tasmota (current s), tasmota (latest s)) of
           (Some ct, Some lt) \<Rightarrow>
             Inr (Some (STR_UPDATE_FIRMWARE_TASMOTA K,
                        i18n L ''nspanel-controller.panel.newFirmwareTasmotaTextMain'',
                        Str (VersionData.version ct),
                        VersionData.version lt))
         | _ \<Rightarrow> Inl TypeError)
      else Inr n)"

definition checkForUpdates_then ::
  "constants \<Rightarrow> library \<Rightarrow> NSPanelUpdater \<Rightarrow> error + NSPanelUpdater" where
  "checkForUpdates_then K L s =
     (if autoUpdate s = Some False then
        (case hmiNotification K L s None of
           Inl e \<Rightarrow> Inl e
         | Inr n1 \<Rightarrow>
             (case berryDriverNotification K L s n1 of
                Inl e \<Rightarrow> Inl e
              | Inr n2 \<Rightarrow>
                  (case tasmotaNotification K L s n2 of
                     Inl e \<Rightarrow> Inl e
                   | Inr None \<Rightarrow> Inr s
                   | Inr (Some (notifyId', notifyTextMain, currentVersion, latestVersion)) \<Rightarrow>
                       Inr (showUpdateNotification K L notifyId' notifyTextMain
                              currentVersion latestVersion s))))
      else Inr s)"

text \<open>
  The reactions \<^verbatim>\<open>checkForUpdates\<close> registers on the promise, run when a call has settled
  it: the \<^verbatim>\<open>then\<close> callback on a resolution; \<^verbatim>\<open>catch\<close>, which only logs, on a rejection
  and on an exception of the \<^verbatim>\<open>then\<close> callback.
\<close>

definition reactions ::
  "constants \<Rightarrow> library \<Rightarrow> promise \<Rightarrow> promise \<Rightarrow> NSPanelUpdater \<Rightarrow> NSPanelUpdater" where
  "reactions K L was now s =
     (case (was, now) of
        (Pending, Resolved st) \<Rightarrow>
          (case checkForUpdates_then K L s of Inl e \<Rightarrow> s | Inr s' \<Rightarrow> s')
      | _ \<Rightarrow> s)"

definition checkForUpdates ::
  "constants \<Rightarrow> library \<Rightarrow> NSPanelUpdater \<Rightarrow> NSPanelUpdater \<times> Acquisition" where
  "checkForUpdates K L s =
     (let sa = acquireVersions K L s
      in (reactions K L Pending (promise (snd sa)) (fst sa), snd sa))"

subsection \<open>The updater over time\<close>

text \<open>
  What reaches the updater between two calls of \<^verbatim>\<open>waitForDataAcquisition\<close>: a firmware
  event, the HMI's version from its startup event, the three responses to the requests of
  \<^verbatim>\<open>getLatestVersion\<close>, the user's answer to a notification.
\<close>

datatype incoming =
    FirmwareEvent "FirmwareEventArgs option"
  | HmiVersionReport HMIVersion
  | TasmotaRelease "string option"
  | BerryDriverSource "string option"
  | NluiSource "(string \<times> string) option"
  | NotificationResult string string

fun deliver :: "constants \<Rightarrow> library \<Rightarrow> NSPanelUpdater \<Rightarrow> incoming \<Rightarrow> NSPanelUpdater" where
  "deliver K L s (FirmwareEvent fwEvent) = onFirmwareEvent K fwEvent s"
| "deliver K L s (HmiVersionReport v) = setHmiVersion v s"
| "deliver K L s (TasmotaRelease tag_name) = onTasmotaRelease tag_name s"
| "deliver K L s (BerryDriverSource g) = onBerryDriverSource g s"
| "deliver K L s (NluiSource g) = onNluiSource g s"
| "deliver K L s (NotificationResult notifyId' action) =
     onUpdateNotificationResult K (isNullOrEmpty L) notifyId' action s"

text \<open>
  The timer runs out: the waiting call of \<^verbatim>\<open>waitForDataAcquisition\<close> is made, then the
  promise's reactions if the call settled it. Nothing happens when no timer is waiting.
\<close>

definition timer_fires ::
  "constants \<Rightarrow> library \<Rightarrow> NSPanelUpdater \<times> Acquisition \<Rightarrow> outcome" where
  "timer_fires K L sa =
     (case timer (snd sa) of
        None \<Rightarrow> Inr sa
      | Some delay \<Rightarrow>
          (case waitForDataAcquisition L (fst sa, (snd sa)\<lparr>timer := None\<rparr>) of
             Inl e \<Rightarrow> Inl e
           | Inr sa' \<Rightarrow>
               Inr (reactions K L (promise (snd sa)) (promise (snd sa')) (fst sa'), snd sa')))"

text \<open>
  A round is what arrives during one wait, then the timer. \<open>rounds\<close> runs a list of them
  and ends with the first exception: nothing of the updater catches it, and what the
  process does after it is not followed. \<open>polled\<close> lists, round by round, the updater as the
  call made at the end of the round finds it, and \<open>observations\<close> whether that call finds
  all six versions known.
\<close>

definition all_known :: "NSPanelUpdater \<Rightarrow> bool" where
  "all_known s = (versionAcquisitionStatus s AND AllAcquired = AllAcquired)"

fun rounds ::
  "constants \<Rightarrow> library \<Rightarrow> NSPanelUpdater \<times> Acquisition \<Rightarrow> incoming list list \<Rightarrow> outcome" where
  "rounds K L sa [] = Inr sa"
| "rounds K L sa (evs # rest) =
     (case timer_fires K L (foldl (deliver K L) (fst sa) evs, snd sa) of
        Inl e \<Rightarrow> Inl e
      | Inr sa' \<Rightarrow> rounds K L sa' rest)"

fun polled ::
  "constants \<Rightarrow> library \<Rightarrow> NSPanelUpdater \<times> Acquisition \<Rightarrow> incoming list list \<Rightarrow>
   NSPanelUpdater list" where
  "polled K L sa [] = []"
| "polled K L sa (evs # rest) =
     foldl (deliver K L) (fst sa) evs
     # (case timer_fires K L (foldl (deliver K L) (fst sa) evs, snd sa) of
          Inl e \<Rightarrow> []
        | Inr sa' \<Rightarrow> polled K L sa' rest)"

definition observations ::
  "constants \<Rightarrow> library \<Rightarrow> NSPanelUpdater \<times> Acquisition \<Rightarrow> incoming list list \<Rightarrow> bool list" where
  "observations K L sa rs = map all_known (polled K L sa rs)"

section \<open>Instances for the examples\<close>

text \<open>
  The theorems below hold for every runtime \<open>R\<close>, every library \<open>L\<close> and every constants
  \<open>K\<close>. To evaluate the functions on concrete payloads, the examples use these instances.
  \<open>example_Number\<close> agrees with \<^verbatim>\<open>Number\<close> on the empty string and on strings of decimal
  digits, and is \<^verbatim>\<open>NaN\<close> elsewhere; \<open>example_JSON_parse\<close> knows one payload and rejects every
  other string; the colour conversion returns its two coordinates.
  \<open>example_semver_gt\<close> is \<^verbatim>\<open>semver.gt\<close> on the versions of the examples: two strings of
  three decimal numbers joined by dots are compared number by number, and a string of
  another form raises the \<^verbatim>\<open>TypeError\<close> that \<^verbatim>\<open>semver.gt\<close> raises on four numbers joined by
  dots (\<^verbatim>\<open>semver.gt\<close> accepts a suffix after the third number, which no example has).
  \<open>example_sign\<close> is the sign of \<^verbatim>\<open>Number\<close> on the empty string and on strings of decimal
  digits, and that of \<^verbatim>\<open>NaN\<close> elsewhere.
\<close>

definition is_digit :: "char \<Rightarrow> bool" where
  "is_digit c = (48 \<le> (of_char c :: nat) \<and> (of_char c :: nat) \<le> 57)"

definition decimal :: "string \<Rightarrow> nat" where
  "decimal s = foldl (\<lambda>n c. 10 * n + (of_char c - 48)) 0 s"

definition example_Number :: "string \<Rightarrow> nat option" where
  "example_Number s = (if list_all is_digit s then Some (decimal s) else None)"

definition example_payload :: string where
  "example_payload = ''{\"CustomRecv\":\"event,buttonPress2,light.kitchen,button\"}''"

definition example_JSON_parse :: "string \<Rightarrow> nat json option" where
  "example_JSON_parse s =
     (if s = example_payload
      then Some (JObject [(''CustomRecv'', JString ''event,buttonPress2,light.kitchen,button'')])
      else None)"

definition example_runtime ::
  "(nat, nat option \<times> nat option, nat option \<times> nat option, nat) runtime" where
  "example_runtime =
     \<lparr>JSON_parse = example_JSON_parse,
      Number_of_string = example_Number,
      newDate = 0,
      toBoolean = (\<lambda>x. x = Some ''1'' \<or> x = Some ''true''),
      stringIsNullOrEmpty = (\<lambda>x. x = None \<or> x = Some []),
      hmiPosToColor = (\<lambda>x y. ((x, y), (x, y)))\<rparr>"

definition example_constants :: constants where
  "example_constants =
     \<lparr>FIRMWARE_TASMOTA = ''tasmota'',
      FIRMWARE_BERRYDRIVER = ''berry-driver'',
      FIRMWARE_HMI = ''hmi'',
      STR_UPDATE_FIRMWARE_TASMOTA = ''tasmota'',
      STR_UPDATE_FIRMWARE_BERRYDRIVER = ''berry-driver'',
      STR_UPDATE_FIRMWARE_HMI = ''hmi'',
      STR_UPDATE_NOTIFY_PREFIX = ''update.'',
      STR_UPDATE_NOTIFY_ICON = ''icon'',
      STR_LUI_NOTIFY_ACTION_YES = ''yes'',
      STR_LUI_CMD_SUCCESS = ''Done'',
      STR_LUI_CMD_ACTIVATE_STARTUP_PAGE = ''startup-page'',
      STR_LUI_LINEBREAK = ''/'',
      STR_LUI_COLOR_RED = ''red'',
      STR_LUI_COLOR_GREEN = ''green'',
      STR_BERRYDRIVER_CMD_FLASHNEXTION = ''FlashNextion'',
      STR_BERRYDRIVER_CMD_UPDATEDRIVER = ''UpdateDriverVersion'',
      STR_BERRYDRIVER_CMD_GETVERSION = ''GetDriverVersion'',
      STR_TASMOTA_CMD_BACKLOG = ''Backlog'',
      STR_TASMOTA_CMD_RESTART = ''Restart'',
      STR_TASMOTA_PARAM_RESTART_SAVE_TO_FLASH = ''1'',
      STR_TASMOTA_CMD_OTAURL = ''OtaUrl'',
      STR_TASMOTA_CMD_UPGRADE = ''Upgrade'',
      STR_TASMOTA_CMD_STATUS = ''Status''\<rparr>"

fun nat_list_less :: "nat list \<Rightarrow> nat list \<Rightarrow> bool" where
  "nat_list_less [] [] = False"
| "nat_list_less [] (y # ys) = True"
| "nat_list_less (x # xs) [] = False"
| "nat_list_less (x # xs) (y # ys) = (x < y \<or> (x = y \<and> nat_list_less xs ys))"

definition is_number :: "string \<Rightarrow> bool" where
  "is_number s = (s \<noteq> [] \<and> list_all is_digit s \<and> (s = ''0'' \<or> hd s \<noteq> CHR ''0''))"

definition is_semver :: "string \<Rightarrow> bool" where
  "is_semver s = (length (split CHR ''.'' s) = 3 \<and> list_all is_number (split CHR ''.'' s))"

definition example_semver_gt :: "string \<Rightarrow> string \<Rightarrow> error + bool" where
  "example_semver_gt a b =
     (if is_semver a \<and> is_semver b
      then Inr (nat_list_less (map decimal (split CHR ''.'' b)) (map decimal (split CHR ''.'' a)))
      else Inl TypeError)"

definition example_sign :: "string \<Rightarrow> sign" where
  "example_sign s =
     (if list_all is_digit s then (if decimal s = 0 then Zero else Positive) else NaN)"

definition example_library :: library where
  "example_library =
     \<lparr>semver_gt = example_semver_gt,
      i18n = (\<lambda>key. key),
      isNullOrEmpty = (\<lambda>x. x = None \<or> x = Some []),
      sign_of_Number = example_sign\<rparr>"

definition example_updater :: NSPanelUpdater where
  "example_updater =
     \<lparr>updateInProgress = False,
      updateTaskStack = [],
      current = \<lparr>tasmota = None, berryDriver = None, hmi = None\<rparr>,
      latest = \<lparr>tasmota = None, berryDriver = None, hmi = None\<rparr>,
      versionAcquisitionStatus = 0,
      mqttHandler = Some [],
      panelController = Some [],
      autoUpdate = Some False,
      requests = []\<rparr>"

section \<open>What the properties are stated with\<close>

text \<open>
  The update procedure of each firmware as the spec words it (section 4.3). Tasmota: an
  OTA-URL command with a fixed firmware URL, then an upgrade-trigger command. Berry driver:
  one composite command that fetches and applies the latest driver, then restarts the
  device saving to flash. HMI: a flash-firmware command with a fixed image URL.
\<close>

definition update_commands :: "constants \<Rightarrow> string \<Rightarrow> mqtt_call list" where
  "update_commands K t =
     (if t = FIRMWARE_TASMOTA K then
        [sendCommandToPanel (STR_TASMOTA_CMD_OTAURL K)
           ''http://ota.tasmota.com/tasmota32/release/tasmota32-nspanel.bin'',
         sendCommandToPanel (STR_TASMOTA_CMD_UPGRADE K) ''1'']
      else if t = FIRMWARE_BERRYDRIVER K then
        [sendCommandToPanel (STR_TASMOTA_CMD_BACKLOG K)
           (STR_TASMOTA_CMD_BACKLOG K @ '' '' @ STR_BERRYDRIVER_CMD_UPDATEDRIVER K @ '' ''
            @ URL_BERRYDRIVER_LATEST @ ''; '' @ STR_TASMOTA_CMD_RESTART K @ '' ''
            @ STR_TASMOTA_PARAM_RESTART_SAVE_TO_FLASH K)]
      else if t = FIRMWARE_HMI K then
        [sendCommandToPanel (STR_BERRYDRIVER_CMD_FLASHNEXTION K)
           ''http://nspanel.pky.eu/lui-release.tft'']
      else [])"

text \<open>
  Plain lexicographic ordering of strings, as the spec words the comparison of the
  berry-driver and HMI versions: the lexicographic extension of the order of the code
  units.
\<close>

definition code_unit_less :: "(char \<times> char) set" where
  "code_unit_less = {(c, d). (of_char c :: nat) < of_char d}"

definition lexicographically_less :: "string \<Rightarrow> string \<Rightarrow> bool" where
  "lexicographically_less a b = ((a, b) \<in> lexord code_unit_less)"

text \<open>
  What holds of the updater from the start of an acquisition until its versions are all
  known: a version whose flag is set has its record, the latest HMI version's with a string
  as internal version, and no update flag is set.
\<close>

fun is_string :: "nullable \<Rightarrow> bool" where
  "is_string (Str v) = True"
| "is_string Undefined = False"
| "is_string Null = False"

definition versions_present :: "NSPanelUpdater \<Rightarrow> bool" where
  "versions_present s =
     ((versionAcquisitionStatus s AND TasmotaVersionCurrent \<noteq> 0 \<longrightarrow> tasmota (current s) \<noteq> None)
      \<and> (versionAcquisitionStatus s AND TasmotaVersionLatest \<noteq> 0 \<longrightarrow> tasmota (latest s) \<noteq> None)
      \<and> (versionAcquisitionStatus s AND BerryDriverVersionCurrent \<noteq> 0 \<longrightarrow> berryDriver (current s) \<noteq> None)
      \<and> (versionAcquisitionStatus s AND BerryDriverVersionLatest \<noteq> 0 \<longrightarrow> berryDriver (latest s) \<noteq> None)
      \<and> (versionAcquisitionStatus s AND HmiVersionCurrent \<noteq> 0 \<longrightarrow> hmi (current s) \<noteq> None)
      \<and> (versionAcquisitionStatus s AND HmiVersionLatest \<noteq> 0 \<longrightarrow>
           (case hmi (latest s) of None \<Rightarrow> False | Some lh \<Rightarrow> is_string (internalVersion lh))))"

definition no_update_flags :: "NSPanelUpdater \<Rightarrow> bool" where
  "no_update_flags s =
     (versionAcquisitionStatus s AND TasmotaUpdateAvailable = 0
      \<and> versionAcquisitionStatus s AND BerryDriverUpdateAvailable = 0
      \<and> versionAcquisitionStatus s AND HmiUpdateAvailable = 0)"

definition acquiring :: "NSPanelUpdater \<Rightarrow> bool" where
  "acquiring s = (versions_present s \<and> no_update_flags s)"

text \<open>
  Whether \<^verbatim>\<open>semver.gt\<close> answers, rather than raises, for the two Tasmota versions the updater
  holds.
\<close>

definition semver_answers :: "library \<Rightarrow> NSPanelUpdater \<Rightarrow> bool" where
  "semver_answers L s =
     (case (tasmota (latest s), tasmota (current s)) of
        (Some lt, Some ct) \<Rightarrow>
          (case semver_gt L (VersionData.version lt) (VersionData.version ct) of
             Inl e \<Rightarrow> False
           | Inr newer \<Rightarrow> True)
      | _ \<Rightarrow> False)"

text \<open>
  The updater after the three comparisons of \<^verbatim>\<open>waitForDataAcquisition\<close>, when the records of
  the berry driver and of the HMI are there and \<^verbatim>\<open>semver.gt\<close> has answered \<open>newer\<close>.
\<close>

definition update_flags :: "library \<Rightarrow> bool \<Rightarrow> NSPanelUpdater \<Rightarrow> NSPanelUpdater" where
  "update_flags L newer s =
     (case (berryDriver (latest s), berryDriver (current s), hmi (latest s), hmi (current s)) of
        (Some lb, Some cb, Some lh, Some ch) \<Rightarrow>
          set_flag (js_gt L (internalVersion lh) (internalVersion ch)) HmiUpdateAvailable
            (set_flag (js_string_less (VersionData.version cb) (VersionData.version lb))
               BerryDriverUpdateAvailable
               (set_flag newer TasmotaUpdateAvailable s))
      | _ \<Rightarrow> s)"

text \<open>
  Runs for the examples. In \<open>example_rounds\<close> the three responses arrive during the first
  wait and the panel's three reports during the second, and every component has a newer
  version; in \<open>example_rounds_tasmota_hmi\<close> the berry driver is up to date; in
  \<open>example_rounds_development\<close> the panel runs a development build of Tasmota, whose version
  has four numbers.
  \<open>example_acquired\<close> is the updater after an acquisition that found a newer Tasmota
  and a newer HMI firmware.
\<close>

definition example_rounds :: "incoming list list" where
  "example_rounds =
     [[TasmotaRelease (Some ''v13.2.0''), BerryDriverSource (Some ''9''),
       NluiSource (Some (''53'', ''4.3.1''))],
      [FirmwareEvent (Some \<lparr>fw_event = ''version'', fw_source = ''tasmota'',
                            fw_version = Some ''13.1.0(tasmota)'', fw_status = None\<rparr>),
       FirmwareEvent (Some \<lparr>fw_event = ''version'', fw_source = ''berry-driver'',
                            fw_version = Some ''8'', fw_status = None\<rparr>),
       HmiVersionReport \<lparr>HMIVersion.version = Null, internalVersion = Str ''52'',
                         model = Str ''eu''\<rparr>]]"

definition example_rounds_tasmota_hmi :: "incoming list list" where
  "example_rounds_tasmota_hmi =
     [[TasmotaRelease (Some ''v13.2.0''), BerryDriverSource (Some ''9''),
       NluiSource (Some (''53'', ''4.3.1''))],
      [FirmwareEvent (Some \<lparr>fw_event = ''version'', fw_source = ''tasmota'',
                            fw_version = Some ''13.1.0(tasmota)'', fw_status = None\<rparr>),
       FirmwareEvent (Some \<lparr>fw_event = ''version'', fw_source = ''berry-driver'',
                            fw_version = Some ''9'', fw_status = None\<rparr>),
       HmiVersionReport \<lparr>HMIVersion.version = Null, internalVersion = Str ''52'',
                         model = Str ''eu''\<rparr>]]"

definition example_rounds_development :: "incoming list list" where
  "example_rounds_development =
     [[TasmotaRelease (Some ''v13.2.0''), BerryDriverSource (Some ''9''),
       NluiSource (Some (''53'', ''4.3.1''))],
      [FirmwareEvent (Some \<lparr>fw_event = ''version'', fw_source = ''tasmota'',
                            fw_version = Some ''13.1.0.1(tasmota)'', fw_status = None\<rparr>),
       FirmwareEvent (Some \<lparr>fw_event = ''version'', fw_source = ''berry-driver'',
                            fw_version = Some ''8'', fw_status = None\<rparr>),
       HmiVersionReport \<lparr>HMIVersion.version = Null, internalVersion = Str ''52'',
                         model = Str ''eu''\<rparr>]]"

definition example_acquired :: NSPanelUpdater where
  "example_acquired =
     example_updater
       \<lparr>current := \<lparr>tasmota = Some \<lparr>VersionData.version = ''13.1.0''\<rparr>,
                    berryDriver = Some \<lparr>VersionData.version = ''9''\<rparr>,
                    hmi = Some \<lparr>HMIVersion.version = Null, internalVersion = Str ''52'',
                                model = Str ''eu''\<rparr>\<rparr>,
        latest := \<lparr>tasmota = Some \<lparr>VersionData.version = ''13.2.0''\<rparr>,
                   berryDriver = Some \<lparr>VersionData.version = ''9''\<rparr>,
                   hmi = Some \<lparr>HMIVersion.version = Str ''4.3.1'', internalVersion = Str ''53'',
                               model = Undefined\<rparr>\<rparr>,
        versionAcquisitionStatus := AllAcquired OR TasmotaUpdateAvailable OR HmiUpdateAvailable\<rparr>"

definition example_update_event :: "string \<Rightarrow> FirmwareEventArgs" where
  "example_update_event outcome =
     \<lparr>fw_event = ''update'', fw_source = ''berry-driver'', fw_version = None,
      fw_status = Some outcome\<rparr>"

definition example_busy :: NSPanelUpdater where
  "example_busy = example_updater\<lparr>updateInProgress := True, updateTaskStack := [''tasmota'', ''hmi'']\<rparr>"

section \<open>Properties of the parser\<close>

subsection \<open>actionStringToNumber\<close>

lemma of_char_toLowerCase_char:
  "(of_char (toLowerCase_char c) :: nat) = (if isUpperCase_char c then of_char c + 32 else of_char c)"
  by (cases c) (simp add: toLowerCase_char_def isUpperCase_char_def)

lemma toLowerCase_char_small:
  assumes "97 \<le> (of_char d :: nat)" and "(of_char d :: nat) \<le> 122"
  shows "(toLowerCase_char c = d) = (c = d \<or> capital_of c d)"
proof -
  have "(toLowerCase_char c = d) = ((of_char (toLowerCase_char c) :: nat) = of_char d)"
    by (simp only: of_char_eq_iff)
  also have "\<dots> = (c = d \<or> capital_of c d)"
    using assms
    unfolding of_char_toLowerCase_char capital_of_def isUpperCase_char_def Let_def
    using of_char_eq_iff [of c d, where ?'a = nat]
    by auto
  finally show ?thesis .
qed

lemma toLowerCase_eq_iff:
  "list_all (\<lambda>d. 97 \<le> (of_char d :: nat) \<and> (of_char d :: nat) \<le> 122) w \<Longrightarrow>
   (toLowerCase s = w) = same_letters s w"
proof (induction w arbitrary: s)
  case Nil
  then show ?case by (simp add: toLowerCase_def same_letters_def)
next
  case (Cons d w)
  show ?case
  proof (cases s)
    case Nil
    then show ?thesis by (simp add: toLowerCase_def same_letters_def)
  next
    case (Cons c s')
    have "97 \<le> (of_char d :: nat)" and "(of_char d :: nat) \<le> 122"
      and "list_all (\<lambda>d. 97 \<le> (of_char d :: nat) \<and> (of_char d :: nat) \<le> 122) w"
      using Cons.prems by simp_all
    then show ?thesis
      using Cons.IH [of s'] toLowerCase_char_small [of d c]
      by (simp add: Cons toLowerCase_def same_letters_def)
  qed
qed

text \<open>
  C9. \<open>actionStringToNumber\<close> is the spec's table: it maps \<open>single\<close>, \<open>double\<close>, \<open>triple\<close>,
  \<open>quad\<close> and \<open>penta\<close>, in any letter case, to 1, 2, 3, 4 and 5, and every other string to no
  value. It never returns zero, and it has no error to return.
\<close>

theorem actionStringToNumber_table:
  "actionStringToNumber s = action_code s
   \<and> actionStringToNumber s \<noteq> Some 0
   \<and> actionStringToNumber s \<in> {None, Some 1, Some 2, Some 3, Some 4, Some 5}"
proof -
  have eqs:
    "(toLowerCase s = ''single'') = same_letters s ''single''"
    "(toLowerCase s = ''double'') = same_letters s ''double''"
    "(toLowerCase s = ''triple'') = same_letters s ''triple''"
    "(toLowerCase s = ''quad'') = same_letters s ''quad''"
    "(toLowerCase s = ''penta'') = same_letters s ''penta''"
    by (rule toLowerCase_eq_iff, simp)+
  have "actionStringToNumber s = action_code s"
    unfolding actionStringToNumber_def action_code_def ActionCodeTable_def Let_def eqs
    by simp
  moreover have "actionStringToNumber s \<noteq> Some 0"
    unfolding actionStringToNumber_def Let_def by simp
  moreover have "actionStringToNumber s \<in> {None, Some 1, Some 2, Some 3, Some 4, Some 5}"
    unfolding actionStringToNumber_def Let_def by simp
  ultimately show ?thesis by simp
qed

lemma actionStringToNumber_examples:
  "actionStringToNumber ''DouBLE'' = Some 2"
  "actionStringToNumber ''PENTA'' = Some 5"
  "actionStringToNumber ''hold'' = None"
  "actionStringToNumber '''' = None"
  by (simp_all add: actionStringToNumber_def toLowerCase_def toLowerCase_char_def
      isUpperCase_char_def)

subsection \<open>parseEvent\<close>

lemmas event_names = STR_LUI_EVENT_STARTUP_def STR_LUI_EVENT_SLEEPREACHED_def
  STR_LUI_EVENT_BUTTONPRESS2_def STR_LUI_EVENT_PAGEOPENDETAIL_def

lemma setValueOrData_keeps:
  "source (setValueOrData R p e) = source e"
  "entityId (setValueOrData R p e) = entityId e"
  "event2 (setValueOrData R p e) = event2 e"
  "event (setValueOrData R p e) = event e"
  "rgb (setValueOrData R p e) = rgb e"
  "hsv (setValueOrData R p e) = hsv e"
  by (simp_all add: setValueOrData_def split: option.split)

lemma parseCustomMessage_event:
  "parseCustomMessage R (''event'' # rest) = parseEvent R (''event'' # rest)"
  by (simp add: parseCustomMessage_def at_def)

lemma split_examples:
  "split CHR ''|'' ''120|80'' = [''120'', ''80'']"
  "split CHR ''|'' ''120|80|0'' = [''120'', ''80'', ''0'']"
  "split CHR ''|'' '''' = ['''']"
  by simp_all

text \<open>
  C4, as the code has it. For every input \<open>["event", "buttonPress2", s, "button", ...]\<close> the
  decoded event has \<open>entityId = parts[2]\<close> and \<open>event2 = parts[2]\<close>, and its \<open>source\<close> is
  \<open>parts[3]\<close>, the string \<open>"button"\<close>: \<open>source\<close> and \<open>event2\<close>, which start as \<open>parts[2]\<close> and
  \<open>parts[3]\<close>, are swapped.
\<close>

theorem parseEvent_button:
  "source (parseEvent R (''event'' # ''buttonPress2'' # s # ''button'' # rest)) = Some ''button''
   \<and> entityId (parseEvent R (''event'' # ''buttonPress2'' # s # ''button'' # rest)) = Some s
   \<and> event2 (parseEvent R (''event'' # ''buttonPress2'' # s # ''button'' # rest)) = Some s"
  by (simp add: parseEvent_def normalizeButtonPress2_def at_def event_names
      setValueOrData_keeps Let_def)

text \<open>
  C4 as the spec states it fails: on \<open>["event", "buttonPress2", "light.kitchen", "button"]\<close>
  the source is not \<open>parts[2]\<close>.
\<close>

theorem parseEvent_button_counterexample:
  "source (parseEvent example_runtime [''event'', ''buttonPress2'', ''light.kitchen'', ''button''])
     \<noteq> Some ''light.kitchen''"
  by (simp add: parseEvent_def normalizeButtonPress2_def at_def event_names
      setValueOrData_keeps Let_def)

text \<open>
  C2, as the code has it. For every input \<open>["event", "buttonPress2", s, "colorWheel", c]\<close>
  the decoded event carries the RGB and HSV fields if and only if \<open>c\<close> is not null or empty
  (for \<^verbatim>\<open>stringIsNullOrEmpty\<close>) and splits on \<open>|\<close> into exactly three tokens; the fields
  are then what \<^verbatim>\<open>hmiPosToColor\<close> makes of the first two tokens, read as numbers.
\<close>

theorem parseEvent_colorWheel:
  "rgb (parseEvent R [''event'', ''buttonPress2'', s, ''colorWheel'', c]) =
     (if \<not> stringIsNullOrEmpty R (Some c) \<and> length (split CHR ''|'' c) = 3
      then Some (fst (hmiPosToColor R (Number R (Some (split CHR ''|'' c ! 0)))
                                       (Number R (Some (split CHR ''|'' c ! 1)))))
      else None)
   \<and> hsv (parseEvent R [''event'', ''buttonPress2'', s, ''colorWheel'', c]) =
     (if \<not> stringIsNullOrEmpty R (Some c) \<and> length (split CHR ''|'' c) = 3
      then Some (snd (hmiPosToColor R (Number R (Some (split CHR ''|'' c ! 0)))
                                       (Number R (Some (split CHR ''|'' c ! 1)))))
      else None)"
  by (simp add: parseEvent_def normalizeButtonPress2_def at_def event_names
      setValueOrData_keeps Let_def emptyEventArgs_def)

text \<open>
  C2 as the spec states it fails in both directions: the two tokens of \<open>"120|80"\<close> give no
  RGB field, and the three tokens of \<open>"120|80|0"\<close> give an RGB and an HSV field.
\<close>

theorem parseEvent_colorWheel_counterexample:
  "rgb (parseEvent example_runtime
          [''event'', ''buttonPress2'', ''light.kitchen'', ''colorWheel'', ''120|80'']) = None
   \<and> rgb (parseEvent example_runtime
          [''event'', ''buttonPress2'', ''light.kitchen'', ''colorWheel'', ''120|80|0''])
       \<noteq> None
   \<and> hsv (parseEvent example_runtime
          [''event'', ''buttonPress2'', ''light.kitchen'', ''colorWheel'', ''120|80|0''])
       \<noteq> None"
  by (simp add: parseEvent_def normalizeButtonPress2_def at_def event_names
      setValueOrData_keeps Let_def emptyEventArgs_def example_runtime_def Number_def
      example_Number_def is_digit_def decimal_def)

subsection \<open>parseBerryDriverUpdateEvent\<close>

text \<open>
  C10. For every input that has the driver-update key or the HMI-flash key,
  \<open>parseBerryDriverUpdateEvent\<close> returns a firmware event \<open>update\<close>. Its status is \<open>success\<close>
  when the value under the key (the driver-update key when both are there) is the string
  \<^verbatim>\<open>STR_LUI_CMD_SUCCESS\<close>, and \<^verbatim>\<open>null\<close> otherwise: never \<open>failed\<close>.
\<close>

theorem parseBerryDriverUpdateEvent_status:
  assumes "hasProperty input (STR_BERRYDRIVER_CMD_UPDATEDRIVER K)
           \<or> hasProperty input (STR_BERRYDRIVER_CMD_FLASHNEXTION K)"
  shows "\<exists>e. parseBerryDriverUpdateEvent K input = Some e
           \<and> type e = ''fw'' \<and> event e = Some ''update''
           \<and> source e = Some (if hasProperty input (STR_BERRYDRIVER_CMD_UPDATEDRIVER K)
                               then FIRMWARE_BERRYDRIVER K else FIRMWARE_HMI K)
           \<and> status e =
               (if get_property input
                     (if hasProperty input (STR_BERRYDRIVER_CMD_UPDATEDRIVER K)
                      then STR_BERRYDRIVER_CMD_UPDATEDRIVER K
                      else STR_BERRYDRIVER_CMD_FLASHNEXTION K)
                   = Some (JString (STR_LUI_CMD_SUCCESS K))
                then Some ''success'' else None)
           \<and> status e \<noteq> Some ''failed''"
  using assms
  by (auto simp add: parseBerryDriverUpdateEvent_def emptyEventArgs_def Let_def)

theorem parseBerryDriverUpdateEvent_status_witness:
  "map_option status (parseBerryDriverUpdateEvent example_constants
       (JObject [(''FlashNextion'', JString ''Done'')]) :: (nat, nat, nat, nat) EventArgs option)
     = Some (Some ''success'')
   \<and> map_option status (parseBerryDriverUpdateEvent example_constants
       (JObject [(''UpdateDriverVersion'', JString ''Failed'')]) :: (nat, nat, nat, nat) EventArgs option)
     = Some None"
proof -
  have h1: "hasProperty (JObject [(''FlashNextion'', JString ''Done'')] :: nat json)
              (STR_BERRYDRIVER_CMD_UPDATEDRIVER example_constants)
            \<or> hasProperty (JObject [(''FlashNextion'', JString ''Done'')] :: nat json)
              (STR_BERRYDRIVER_CMD_FLASHNEXTION example_constants)"
    by (simp add: example_constants_def)
  have h2: "hasProperty (JObject [(''UpdateDriverVersion'', JString ''Failed'')] :: nat json)
              (STR_BERRYDRIVER_CMD_UPDATEDRIVER example_constants)
            \<or> hasProperty (JObject [(''UpdateDriverVersion'', JString ''Failed'')] :: nat json)
              (STR_BERRYDRIVER_CMD_FLASHNEXTION example_constants)"
    by (simp add: example_constants_def)
  from parseBerryDriverUpdateEvent_status [OF h1, where ?'b = nat and ?'c = nat and ?'d = nat]
       parseBerryDriverUpdateEvent_status [OF h2, where ?'b = nat and ?'c = nat and ?'d = nat]
  show ?thesis
    by (auto simp add: example_constants_def)
qed

subsection \<open>parse\<close>

lemma parse_example:
  "map_option source (projr (parse example_runtime example_constants example_payload))
     = Some (Some ''button'')"
  by (simp add: parse_def parse_try_def example_runtime_def example_JSON_parse_def
      parseCustomMessage_event parseEvent_def normalizeButtonPress2_def at_def event_names
      setValueOrData_keeps Let_def)

text \<open>
  C1, on the code: when \<^verbatim>\<open>JSON.parse\<close> rejects the payload, \<open>parse\<close> does not return an
  \<open>unknown\<close> event that wraps the payload. The \<^verbatim>\<open>catch\<close> block writes \<^verbatim>\<open>data\<close> on the
  result, which is still \<^verbatim>\<open>null\<close>, and \<open>parse\<close> ends with a \<^verbatim>\<open>TypeError\<close>.
\<close>

theorem parse_unparseable_throws:
  assumes "JSON_parse R payloadStr = None"
  shows "parse R K payloadStr = Inl TypeError"
  using assms by (simp add: parse_def parse_try_def assign_data_def)

theorem parse_unparseable_throws_witness:
  "JSON_parse example_runtime ''not json'' = None
   \<and> parse example_runtime example_constants ''not json'' = Inl TypeError"
proof -
  have h: "JSON_parse example_runtime ''not json'' = None"
    by (simp add: example_runtime_def example_JSON_parse_def example_payload_def)
  from h parse_unparseable_throws [OF h] show ?thesis by simp
qed

section \<open>Properties of the updater\<close>

subsection \<open>The task stack\<close>

lemma pop_snoc [simp]: "pop (ts @ [t]) = (Some t, ts)"
  by (simp add: pop_def)

lemma stack_unchanged: "updateTaskStack s = xs \<Longrightarrow> s\<lparr>updateTaskStack := xs\<rparr> = s"
  by auto

lemma processUpdateTasks_empty:
  "updateTaskStack s = [] \<Longrightarrow> processUpdateTasks K s = s"
  by (simp add: processUpdateTasks_def pop_def)

text \<open>
  C5. \<open>processUpdateTasks\<close> takes the task that was pushed last. When an update is in
  progress the task goes back on top of the stack and nothing else changes: no command is
  sent. Otherwise the task leaves the stack, the latch is set, and the commands of the
  task's update procedure are sent.
\<close>

theorem processUpdateTasks_lifo:
  assumes "updateTaskStack s = ts @ [t]"
    and "t \<in> {FIRMWARE_TASMOTA K, FIRMWARE_BERRYDRIVER K, FIRMWARE_HMI K}"
  shows "processUpdateTasks K s =
           (if updateInProgress s then s
            else s\<lparr>updateInProgress := True, updateTaskStack := ts,
                   mqttHandler := map_option (\<lambda>calls. calls @ update_commands K t) (mqttHandler s)\<rparr>)"
proof (cases "updateInProgress s")
  case True
  with assms show ?thesis
    by (auto simp add: processUpdateTasks_def updateTasmotaFirmware_def updateBerryDriver_def
        updateHmi_def Let_def stack_unchanged)
next
  case False
  with assms show ?thesis
    by (auto simp add: processUpdateTasks_def updateTasmotaFirmware_def updateBerryDriver_def
        updateHmi_def Let_def update_commands_def mqtt_send_def option.map_comp comp_def)
qed

theorem processUpdateTasks_lifo_witness:
  "processUpdateTasks example_constants example_busy = example_busy
   \<and> processUpdateTasks example_constants (example_busy\<lparr>updateInProgress := False\<rparr>)
       = example_busy\<lparr>updateInProgress := True, updateTaskStack := [''tasmota''],
           mqttHandler := Some [sendCommandToPanel ''FlashNextion''
                                  ''http://nspanel.pky.eu/lui-release.tft'']\<rparr>"
proof -
  have h1: "updateTaskStack example_busy = [''tasmota''] @ [''hmi'']"
    and h1': "updateTaskStack (example_busy\<lparr>updateInProgress := False\<rparr>) = [''tasmota''] @ [''hmi'']"
    by (simp_all add: example_busy_def)
  have h2: "''hmi'' \<in> {FIRMWARE_TASMOTA example_constants, FIRMWARE_BERRYDRIVER example_constants,
                       FIRMWARE_HMI example_constants}"
    by (simp add: example_constants_def)
  from processUpdateTasks_lifo [OF h1 h2] processUpdateTasks_lifo [OF h1' h2]
  show ?thesis
    by (simp add: example_busy_def example_updater_def update_commands_def example_constants_def)
qed

text \<open>
  C6. On an \<open>update\<close> event with status \<open>success\<close>, \<open>onFirmwareEvent\<close> clears the latch and
  processes the next task (with no task left, the latch stays clear). On any other status
  it changes nothing; on \<open>failed\<close> in particular the latch, the task stack and the commands
  sent are as before.
\<close>

theorem onFirmwareEvent_update:
  assumes "fw_event ev = ''update''"
  shows "(fw_status ev = Some ''success'' \<longrightarrow>
            onFirmwareEvent K (Some ev) s = processUpdateTasks K (s\<lparr>updateInProgress := False\<rparr>))
         \<and> (fw_status ev \<noteq> Some ''success'' \<longrightarrow> onFirmwareEvent K (Some ev) s = s)
         \<and> (fw_status ev = Some ''failed'' \<longrightarrow>
              updateInProgress (onFirmwareEvent K (Some ev) s) = updateInProgress s
              \<and> updateTaskStack (onFirmwareEvent K (Some ev) s) = updateTaskStack s
              \<and> mqttHandler (onFirmwareEvent K (Some ev) s) = mqttHandler s)
         \<and> (fw_status ev = Some ''success'' \<and> updateTaskStack s = [] \<longrightarrow>
              \<not> updateInProgress (onFirmwareEvent K (Some ev) s))"
  using assms
  by (auto simp add: onFirmwareEvent_def processUpdateTasks_empty)

theorem onFirmwareEvent_update_witness:
  "onFirmwareEvent example_constants (Some (example_update_event ''failed'')) example_busy
     = example_busy
   \<and> onFirmwareEvent example_constants (Some (example_update_event ''success'')) example_busy
     = example_busy\<lparr>updateTaskStack := [''tasmota''],
         mqttHandler := Some [sendCommandToPanel ''FlashNextion''
                                ''http://nspanel.pky.eu/lui-release.tft'']\<rparr>
   \<and> \<not> updateInProgress
         (onFirmwareEvent example_constants (Some (example_update_event ''success''))
            (example_busy\<lparr>updateTaskStack := []\<rparr>))"
proof -
  have e: "fw_event (example_update_event ''failed'') = ''update''"
    "fw_event (example_update_event ''success'') = ''update''"
    by (simp_all add: example_update_event_def)
  have f: "fw_status (example_update_event ''failed'') \<noteq> Some ''success''"
    "fw_status (example_update_event ''success'') = Some ''success''"
    by (simp_all add: example_update_event_def)
  have p: "processUpdateTasks example_constants (example_busy\<lparr>updateInProgress := False\<rparr>)
       = example_busy\<lparr>updateTaskStack := [''tasmota''],
           mqttHandler := Some [sendCommandToPanel ''FlashNextion''
                                  ''http://nspanel.pky.eu/lui-release.tft'']\<rparr>"
    by (simp add: example_busy_def example_updater_def processUpdateTasks_def pop_def updateHmi_def
        mqtt_send_def example_constants_def)
  have q: "updateTaskStack (example_busy\<lparr>updateTaskStack := []\<rparr>) = []" by simp
  have c1: "onFirmwareEvent example_constants (Some (example_update_event ''failed'')) example_busy
     = example_busy"
    using onFirmwareEvent_update [OF e(1), of example_constants example_busy] f(1) by blast
  have c2: "onFirmwareEvent example_constants (Some (example_update_event ''success'')) example_busy
     = processUpdateTasks example_constants (example_busy\<lparr>updateInProgress := False\<rparr>)"
    using onFirmwareEvent_update [OF e(2), of example_constants example_busy] f(2) by blast
  have c3: "\<not> updateInProgress
         (onFirmwareEvent example_constants (Some (example_update_event ''success''))
            (example_busy\<lparr>updateTaskStack := []\<rparr>))"
    using onFirmwareEvent_update [OF e(2), of example_constants "example_busy\<lparr>updateTaskStack := []\<rparr>"]
      f(2) q by blast
  from c1 c2 c3 p show ?thesis by simp
qed

subsection \<open>The notification\<close>

lemma showUpdateNotification_one:
  "\<exists>n. showUpdateNotification K L nid msg cur lat s =
          s\<lparr>panelController := map_option (\<lambda>shown. shown @ [n]) (panelController s)\<rparr>
        \<and> notifyId n = STR_UPDATE_NOTIFY_PREFIX K @ nid"
  unfolding showUpdateNotification_def Let_def
  by (rule exI, rule conjI, rule refl, simp)

text \<open>
  C3, as the code has it. After an acquisition, with automatic updates disabled and at
  least one update available, \<open>checkForUpdates\<close> presents exactly one notification: for
  Tasmota if a Tasmota update is available, else for the berry driver if one is, else for
  the HMI. Each of the three blocks overwrites what the block before it chose, so the last
  available one in the order HMI, berry driver, Tasmota is shown.
\<close>

theorem checkForUpdates_notifies_once:
  assumes "autoUpdate s = Some False"
    and "tasmota (current s) \<noteq> None" and "tasmota (latest s) \<noteq> None"
    and "berryDriver (current s) \<noteq> None" and "berryDriver (latest s) \<noteq> None"
    and "hmi (current s) \<noteq> None" and "hmi (latest s) \<noteq> None"
    and "versionAcquisitionStatus s AND TasmotaUpdateAvailable \<noteq> 0
         \<or> versionAcquisitionStatus s AND BerryDriverUpdateAvailable \<noteq> 0
         \<or> versionAcquisitionStatus s AND HmiUpdateAvailable \<noteq> 0"
  shows "\<exists>n. checkForUpdates_then K L s =
               Inr (s\<lparr>panelController := map_option (\<lambda>shown. shown @ [n]) (panelController s)\<rparr>)
             \<and> notifyId n = STR_UPDATE_NOTIFY_PREFIX K @
                 (if versionAcquisitionStatus s AND TasmotaUpdateAvailable \<noteq> 0
                  then STR_UPDATE_FIRMWARE_TASMOTA K
                  else if versionAcquisitionStatus s AND BerryDriverUpdateAvailable \<noteq> 0
                  then STR_UPDATE_FIRMWARE_BERRYDRIVER K
                  else STR_UPDATE_FIRMWARE_HMI K)"
proof -
  from assms(2-7) obtain ct lt cb lb ch lh where v:
    "tasmota (current s) = Some ct" "tasmota (latest s) = Some lt"
    "berryDriver (current s) = Some cb" "berryDriver (latest s) = Some lb"
    "hmi (current s) = Some ch" "hmi (latest s) = Some lh"
    by auto
  let ?nid = "if versionAcquisitionStatus s AND TasmotaUpdateAvailable \<noteq> 0
                  then STR_UPDATE_FIRMWARE_TASMOTA K
                  else if versionAcquisitionStatus s AND BerryDriverUpdateAvailable \<noteq> 0
                  then STR_UPDATE_FIRMWARE_BERRYDRIVER K
                  else STR_UPDATE_FIRMWARE_HMI K"
  have "\<exists>msg cur lat. checkForUpdates_then K L s = Inr (showUpdateNotification K L ?nid msg cur lat s)"
  proof (cases "versionAcquisitionStatus s AND TasmotaUpdateAvailable \<noteq> 0")
    case True
    with assms(1) v show ?thesis
      by (auto simp add: checkForUpdates_then_def hmiNotification_def berryDriverNotification_def
          tasmotaNotification_def)
  next
    case noT: False
    show ?thesis
    proof (cases "versionAcquisitionStatus s AND BerryDriverUpdateAvailable \<noteq> 0")
      case True
      with noT assms(1) v show ?thesis
        by (auto simp add: checkForUpdates_then_def hmiNotification_def berryDriverNotification_def
            tasmotaNotification_def)
    next
      case False
      with noT assms(8) have "versionAcquisitionStatus s AND HmiUpdateAvailable \<noteq> 0" by blast
      with False noT assms(1) v show ?thesis
        by (auto simp add: checkForUpdates_then_def hmiNotification_def berryDriverNotification_def
            tasmotaNotification_def)
    qed
  qed
  then obtain msg cur lat where
    c: "checkForUpdates_then K L s = Inr (showUpdateNotification K L ?nid msg cur lat s)"
    by blast
  from showUpdateNotification_one [of K L ?nid msg cur lat s] c show ?thesis
    by auto
qed

theorem checkForUpdates_notifies_once_witness:
  "\<exists>n. checkForUpdates_then example_constants example_library example_acquired =
          Inr (example_acquired\<lparr>panelController := Some [n]\<rparr>)
        \<and> notifyId n = ''update.tasmota''"
proof -
  have h: "autoUpdate example_acquired = Some False"
    "tasmota (current example_acquired) \<noteq> None" "tasmota (latest example_acquired) \<noteq> None"
    "berryDriver (current example_acquired) \<noteq> None" "berryDriver (latest example_acquired) \<noteq> None"
    "hmi (current example_acquired) \<noteq> None" "hmi (latest example_acquired) \<noteq> None"
    by (simp_all add: example_acquired_def example_updater_def)
  have f: "versionAcquisitionStatus example_acquired AND TasmotaUpdateAvailable \<noteq> 0"
    by code_simp
  then have g: "versionAcquisitionStatus example_acquired AND TasmotaUpdateAvailable \<noteq> 0
         \<or> versionAcquisitionStatus example_acquired AND BerryDriverUpdateAvailable \<noteq> 0
         \<or> versionAcquisitionStatus example_acquired AND HmiUpdateAvailable \<noteq> 0" by simp
  have p: "panelController example_acquired = Some []"
    by (simp add: example_acquired_def example_updater_def)
  from checkForUpdates_notifies_once [OF h g, of example_constants example_library] f p
  show ?thesis
    by (simp add: example_constants_def)
qed

text \<open>
  C3 as the spec states it fails. \<open>checkForUpdates\<close> is run with automatic updates disabled;
  the acquisition finds an HMI update and a Tasmota update, and the one notification shown
  is the one for Tasmota, not the one for the HMI.
\<close>

theorem checkForUpdates_priority_counterexample:
  "map_sum id
     (\<lambda>sa. (versionAcquisitionStatus (fst sa) AND HmiUpdateAvailable \<noteq> 0,
            versionAcquisitionStatus (fst sa) AND TasmotaUpdateAvailable \<noteq> 0,
            map_option (map notifyId) (panelController (fst sa))))
     (rounds example_constants example_library
        (checkForUpdates example_constants example_library example_updater)
        example_rounds_tasmota_hmi)
   = Inr (True, True, Some [''update.tasmota''])"
  by code_simp

lemma example_acquired_notification:
  "versionAcquisitionStatus example_acquired AND HmiUpdateAvailable \<noteq> 0
   \<and> versionAcquisitionStatus example_acquired AND TasmotaUpdateAvailable \<noteq> 0
   \<and> map_sum id (\<lambda>s. map_option (map notifyId) (panelController s))
        (checkForUpdates_then example_constants example_library example_acquired)
      = Inr (Some [''update.tasmota''])"
  by code_simp

subsection \<open>The status flags\<close>

lemma flag_bits:
  fixes x :: "32 word"
  shows "(x AND TasmotaVersionCurrent \<noteq> 0) = bit x 0"
    and "(x AND TasmotaVersionLatest \<noteq> 0) = bit x 1"
    and "(x AND BerryDriverVersionCurrent \<noteq> 0) = bit x 2"
    and "(x AND BerryDriverVersionLatest \<noteq> 0) = bit x 3"
    and "(x AND HmiVersionCurrent \<noteq> 0) = bit x 4"
    and "(x AND HmiVersionLatest \<noteq> 0) = bit x 5"
    and "(x AND TasmotaUpdateAvailable \<noteq> 0) = bit x 6"
    and "(x AND BerryDriverUpdateAvailable \<noteq> 0) = bit x 7"
    and "(x AND HmiUpdateAvailable \<noteq> 0) = bit x 8"
proof -
  have p: "\<And>n. (x AND 2 ^ n \<noteq> 0) = bit x n"
    by (simp add: and_exp_eq_0_iff_not_bit)
  show "(x AND TasmotaVersionCurrent \<noteq> 0) = bit x 0" using p [of 0] by (simp add: TasmotaVersionCurrent_def)
  show "(x AND TasmotaVersionLatest \<noteq> 0) = bit x 1" using p [of 1] by (simp add: TasmotaVersionLatest_def)
  show "(x AND BerryDriverVersionCurrent \<noteq> 0) = bit x 2" using p [of 2] by (simp add: BerryDriverVersionCurrent_def)
  show "(x AND BerryDriverVersionLatest \<noteq> 0) = bit x 3" using p [of 3] by (simp add: BerryDriverVersionLatest_def)
  show "(x AND HmiVersionCurrent \<noteq> 0) = bit x 4" using p [of 4] by (simp add: HmiVersionCurrent_def)
  show "(x AND HmiVersionLatest \<noteq> 0) = bit x 5" using p [of 5] by (simp add: HmiVersionLatest_def)
  show "(x AND TasmotaUpdateAvailable \<noteq> 0) = bit x 6" using p [of 6] by (simp add: TasmotaUpdateAvailable_def)
  show "(x AND BerryDriverUpdateAvailable \<noteq> 0) = bit x 7" using p [of 7] by (simp add: BerryDriverUpdateAvailable_def)
  show "(x AND HmiUpdateAvailable \<noteq> 0) = bit x 8" using p [of 8] by (simp add: HmiUpdateAvailable_def)
qed

lemma all_less_6: "(\<forall>n<6. P (n::nat)) = (P 0 \<and> P 1 \<and> P 2 \<and> P 3 \<and> P 4 \<and> P 5)"
proof
  assume "\<forall>n<6. P n"
  then show "P 0 \<and> P 1 \<and> P 2 \<and> P 3 \<and> P 4 \<and> P 5" by simp
next
  assume a: "P 0 \<and> P 1 \<and> P 2 \<and> P 3 \<and> P 4 \<and> P 5"
  show "\<forall>n<6. P n"
  proof (intro allI impI)
    fix n :: nat
    assume "n < 6"
    then have "n = 0 \<or> n = 1 \<or> n = 2 \<or> n = 3 \<or> n = 4 \<or> n = 5" by arith
    with a show "P n" by blast
  qed
qed

lemma all_known_bits:
  "all_known s =
     (bit (versionAcquisitionStatus s) 0 \<and> bit (versionAcquisitionStatus s) 1
      \<and> bit (versionAcquisitionStatus s) 2 \<and> bit (versionAcquisitionStatus s) 3
      \<and> bit (versionAcquisitionStatus s) 4 \<and> bit (versionAcquisitionStatus s) 5)"
proof -
  let ?x = "versionAcquisitionStatus s"
  have "all_known s = (\<forall>n<32. (bit ?x n \<and> n < 6) = (n < 6))"
    unfolding all_known_def AllAcquired_def
    by (simp add: bit_eq_iff bit_and_iff bit_mask_iff)
  also have "\<dots> = (\<forall>n<6. bit ?x n)"
  proof (rule iffI)
    assume a: "\<forall>n<32. (bit ?x n \<and> n < 6) = (n < 6)"
    show "\<forall>n<6. bit ?x n"
    proof (rule allI, rule impI)
      fix n :: nat
      assume n: "n < 6"
      then have "n < 32" by simp
      with a n show "bit ?x n" by blast
    qed
  next
    assume "\<forall>n<6. bit ?x n"
    then show "\<forall>n<32. (bit ?x n \<and> n < 6) = (n < 6)" by blast
  qed
  finally have "all_known s = (\<forall>n<6. bit (versionAcquisitionStatus s) n)" .
  then show ?thesis by (simp only: all_less_6)
qed

lemma bit_set_flag:
  fixes x :: "32 word"
  shows "bit (x OR TasmotaVersionCurrent) n = (bit x n \<or> n = 0)"
    and "bit (x OR TasmotaVersionLatest) n = (bit x n \<or> n = 1)"
    and "bit (x OR BerryDriverVersionCurrent) n = (bit x n \<or> n = 2)"
    and "bit (x OR BerryDriverVersionLatest) n = (bit x n \<or> n = 3)"
    and "bit (x OR HmiVersionCurrent) n = (bit x n \<or> n = 4)"
    and "bit (x OR HmiVersionLatest) n = (bit x n \<or> n = 5)"
    and "bit (x OR TasmotaUpdateAvailable) n = (bit x n \<or> n = 6)"
    and "bit (x OR BerryDriverUpdateAvailable) n = (bit x n \<or> n = 7)"
    and "bit (x OR HmiUpdateAvailable) n = (bit x n \<or> n = 8)"
proof -
  have p: "\<And>k. k < 32 \<Longrightarrow> bit (x OR 2 ^ k) n = (bit x n \<or> n = k)"
    by (auto simp add: bit_or_iff bit_exp_iff)
  show "bit (x OR TasmotaVersionCurrent) n = (bit x n \<or> n = 0)" using p [of 0] by (simp add: TasmotaVersionCurrent_def)
  show "bit (x OR TasmotaVersionLatest) n = (bit x n \<or> n = 1)" using p [of 1] by (simp add: TasmotaVersionLatest_def)
  show "bit (x OR BerryDriverVersionCurrent) n = (bit x n \<or> n = 2)" using p [of 2] by (simp add: BerryDriverVersionCurrent_def)
  show "bit (x OR BerryDriverVersionLatest) n = (bit x n \<or> n = 3)" using p [of 3] by (simp add: BerryDriverVersionLatest_def)
  show "bit (x OR HmiVersionCurrent) n = (bit x n \<or> n = 4)" using p [of 4] by (simp add: HmiVersionCurrent_def)
  show "bit (x OR HmiVersionLatest) n = (bit x n \<or> n = 5)" using p [of 5] by (simp add: HmiVersionLatest_def)
  show "bit (x OR TasmotaUpdateAvailable) n = (bit x n \<or> n = 6)" using p [of 6] by (simp add: TasmotaUpdateAvailable_def)
  show "bit (x OR BerryDriverUpdateAvailable) n = (bit x n \<or> n = 7)" using p [of 7] by (simp add: BerryDriverUpdateAvailable_def)
  show "bit (x OR HmiUpdateAvailable) n = (bit x n \<or> n = 8)" using p [of 8] by (simp add: HmiUpdateAvailable_def)
qed

lemma no_update_flags_bits:
  "no_update_flags s = (\<not> bit (versionAcquisitionStatus s) 6 \<and> \<not> bit (versionAcquisitionStatus s) 7
      \<and> \<not> bit (versionAcquisitionStatus s) 8)"
  using flag_bits(7-9) [of "versionAcquisitionStatus s"]
  by (auto simp add: no_update_flags_def)

lemma mqtt_send_versions [simp]:
  "current (mqtt_send c s) = current s"
  "latest (mqtt_send c s) = latest s"
  "versionAcquisitionStatus (mqtt_send c s) = versionAcquisitionStatus s"
  by (simp_all add: mqtt_send_def)

lemma processUpdateTasks_versions [simp]:
  "current (processUpdateTasks K s) = current s"
  "latest (processUpdateTasks K s) = latest s"
  "versionAcquisitionStatus (processUpdateTasks K s) = versionAcquisitionStatus s"
  by (simp_all add: processUpdateTasks_def updateTasmotaFirmware_def updateBerryDriver_def
      updateHmi_def Let_def split: prod.split)

lemma is_string_iff: "is_string x = (\<exists>v. x = Str v)"
  by (cases x) simp_all

lemma acquiring_bits:
  "acquiring s =
    ((bit (versionAcquisitionStatus s) 0 \<longrightarrow> tasmota (current s) \<noteq> None)
      \<and> (bit (versionAcquisitionStatus s) 1 \<longrightarrow> tasmota (latest s) \<noteq> None)
      \<and> (bit (versionAcquisitionStatus s) 2 \<longrightarrow> berryDriver (current s) \<noteq> None)
      \<and> (bit (versionAcquisitionStatus s) 3 \<longrightarrow> berryDriver (latest s) \<noteq> None)
      \<and> (bit (versionAcquisitionStatus s) 4 \<longrightarrow> hmi (current s) \<noteq> None)
      \<and> (bit (versionAcquisitionStatus s) 5 \<longrightarrow>
           (\<exists>lh l. hmi (latest s) = Some lh \<and> internalVersion lh = Str l))
      \<and> \<not> bit (versionAcquisitionStatus s) 6 \<and> \<not> bit (versionAcquisitionStatus s) 7
      \<and> \<not> bit (versionAcquisitionStatus s) 8)"
proof -
  have h: "(case hmi (latest s) of None \<Rightarrow> False | Some lh \<Rightarrow> is_string (internalVersion lh))
             = (\<exists>lh l. hmi (latest s) = Some lh \<and> internalVersion lh = Str l)"
    by (cases "hmi (latest s)") (simp_all add: is_string_iff)
  show ?thesis
    unfolding acquiring_def no_update_flags_bits versions_present_def flag_bits h by simp
qed

lemma acquiring_onFirmwareEvent: "acquiring s \<Longrightarrow> acquiring (onFirmwareEvent K fwEvent s)"
  by (auto simp add: acquiring_bits onFirmwareEvent_def setTasmotaVersion_def
      setBerryDriverVersion_def bit_set_flag Let_def split: option.split)

lemma acquiring_deliver: "acquiring s \<Longrightarrow> acquiring (deliver K L s ev)"
proof (cases ev)
  case (FirmwareEvent x)
  assume "acquiring s"
  then show ?thesis using FirmwareEvent by (simp add: acquiring_onFirmwareEvent)
next
  case (HmiVersionReport v)
  assume "acquiring s"
  then show ?thesis using HmiVersionReport
    by (simp add: acquiring_bits setHmiVersion_def bit_set_flag)
next
  case (TasmotaRelease t)
  assume "acquiring s"
  then show ?thesis using TasmotaRelease
    by (simp add: acquiring_bits onTasmotaRelease_def bit_set_flag split: option.split)
next
  case (BerryDriverSource g)
  assume "acquiring s"
  then show ?thesis using BerryDriverSource
    by (simp add: acquiring_bits onBerryDriverSource_def bit_set_flag split: option.split)
next
  case (NluiSource g)
  assume "acquiring s"
  then show ?thesis using NluiSource
    by (simp add: acquiring_bits onNluiSource_def bit_set_flag split: option.split prod.split)
next
  case (NotificationResult n a)
  assume "acquiring s"
  then show ?thesis using NotificationResult
    by (simp add: acquiring_bits onUpdateNotificationResult_def Let_def)
qed

lemma acquiring_foldl_deliver: "acquiring s \<Longrightarrow> acquiring (foldl (deliver K L) s evs)"
  by (induction evs arbitrary: s) (simp_all add: acquiring_deliver)

subsection \<open>One call of waitForDataAcquisition\<close>

lemma reactions_unsettled [simp]:
  "reactions K L p (settle p (Rejected st)) s = s"
  "reactions K L p p s = s"
  by (cases p; simp add: reactions_def settle_def)+

lemma reactions_versions [simp]:
  "current (reactions K L p q t) = current t"
  "latest (reactions K L p q t) = latest t"
  "versionAcquisitionStatus (reactions K L p q t) = versionAcquisitionStatus t"
  by (auto simp add: reactions_def checkForUpdates_then_def showUpdateNotification_def Let_def
      split: promise.split sum.split option.split prod.split)

lemma set_flag_versions [simp]:
  "current (set_flag b flag s) = current s"
  "latest (set_flag b flag s) = latest s"
  by (simp_all add: set_flag_def)

lemma update_flags_versions [simp]:
  "current (update_flags L newer s) = current s"
  "latest (update_flags L newer s) = latest s"
  by (simp_all add: update_flags_def split: option.split)

lemma timer_fires_not_known:
  assumes "\<not> all_known s" and "timer a = Some d"
  shows "timer_fires K L (s, a) =
           Inr (s, a\<lparr>timer := Some 1000, acq_i := acq_i a - 1,
                      promise := (if acq_i a - 1 = 0
                                  then settle (promise a) (Rejected (versionAcquisitionStatus s))
                                  else promise a)\<rparr>)"
  using assms
  by (simp add: timer_fires_def waitForDataAcquisition_def all_known_def Let_def)

text \<open>
  The call that finds the six versions known raises what \<^verbatim>\<open>semver.gt\<close> raises, before it
  has written a flag, or sets the three flags and resolves the promise.
\<close>

lemma waitForDataAcquisition_known:
  assumes "all_known s" and "acquiring s"
    and "tasmota (latest s) = Some lt" and "tasmota (current s) = Some ct"
  shows "waitForDataAcquisition L (s, a) =
           (case semver_gt L (VersionData.version lt) (VersionData.version ct) of
              Inl e \<Rightarrow> Inl (e, s, a)
            | Inr newer \<Rightarrow>
                Inr (update_flags L newer s,
                     a\<lparr>promise := settle (promise a)
                         (Resolved (versionAcquisitionStatus (update_flags L newer s)))\<rparr>))"
proof -
  from assms(1,2) obtain lb cb lh ch where
    "berryDriver (latest s) = Some lb" "berryDriver (current s) = Some cb"
    "hmi (latest s) = Some lh" "hmi (current s) = Some ch"
    unfolding all_known_bits acquiring_bits by auto
  with assms(1,3,4) show ?thesis
    by (simp add: waitForDataAcquisition_def update_flags_def all_known_def Let_def
        split: sum.split)
qed

lemma timer_fires_known:
  assumes "all_known s" and "acquiring s" and "timer a = Some d"
    and "tasmota (latest s) = Some lt" and "tasmota (current s) = Some ct"
  shows "timer_fires K L (s, a) =
           (case semver_gt L (VersionData.version lt) (VersionData.version ct) of
              Inl e \<Rightarrow> Inl (e, s, a\<lparr>timer := None\<rparr>)
            | Inr newer \<Rightarrow>
                Inr (reactions K L (promise a)
                       (settle (promise a)
                          (Resolved (versionAcquisitionStatus (update_flags L newer s))))
                       (update_flags L newer s),
                     a\<lparr>timer := None,
                       promise := settle (promise a)
                         (Resolved (versionAcquisitionStatus (update_flags L newer s)))\<rparr>))"
  using assms(3)
  by (simp add: timer_fires_def waitForDataAcquisition_known [OF assms(1,2,4,5)]
      split: sum.split)

text \<open>The three update flags after the comparisons.\<close>

lemma js_gt_Str:
  "js_gt L (Str l) c =
     (case c of Str v \<Rightarrow> js_string_less v l
      | Undefined \<Rightarrow> False
      | Null \<Rightarrow> sign_of_Number L l = Positive)"
  by (cases c) simp_all

lemma js_gt_examples:
  "js_gt example_library (Str ''53'') (Str ''52'')"
  "\<not> js_gt example_library (Str ''100'') (Str ''99'')"
  "js_gt example_library (Str ''53'') Null"
  "\<not> js_gt example_library (Str ''53'') Undefined"
  by code_simp+

lemma update_flags_bits:
  assumes "acquiring s"
    and "berryDriver (latest s) = Some lb" and "berryDriver (current s) = Some cb"
    and "hmi (latest s) = Some lh" and "hmi (current s) = Some ch"
  shows "bit (versionAcquisitionStatus (update_flags L newer s)) 6 = newer"
    and "bit (versionAcquisitionStatus (update_flags L newer s)) 7
           = js_string_less (VersionData.version cb) (VersionData.version lb)"
    and "bit (versionAcquisitionStatus (update_flags L newer s)) 8
           = js_gt L (internalVersion lh) (internalVersion ch)"
proof -
  from assms(1) have clear: "\<not> bit (versionAcquisitionStatus s) 6"
    "\<not> bit (versionAcquisitionStatus s) 7" "\<not> bit (versionAcquisitionStatus s) 8"
    unfolding acquiring_bits by simp_all
  show "bit (versionAcquisitionStatus (update_flags L newer s)) 6 = newer"
    using clear assms(2-5) by (simp add: update_flags_def set_flag_def bit_set_flag)
  show "bit (versionAcquisitionStatus (update_flags L newer s)) 7
           = js_string_less (VersionData.version cb) (VersionData.version lb)"
    using clear assms(2-5) by (simp add: update_flags_def set_flag_def bit_set_flag)
  show "bit (versionAcquisitionStatus (update_flags L newer s)) 8
           = js_gt L (internalVersion lh) (internalVersion ch)"
    using clear assms(2-5) by (simp add: update_flags_def set_flag_def bit_set_flag)
qed

subsection \<open>An acquisition from its start\<close>

lemma observations_Nil [simp]: "observations K L sa [] = []"
  by (simp add: observations_def)

lemma observations_Cons [simp]:
  "observations K L sa (evs # rest) =
     all_known (foldl (deliver K L) (fst sa) evs)
     # (case timer_fires K L (foldl (deliver K L) (fst sa) evs, snd sa) of
          Inl e \<Rightarrow> []
        | Inr sa' \<Rightarrow> observations K L sa' rest)"
  by (simp add: observations_def split: sum.split)

lemma observations_Nil_iff [simp]: "(observations K L sa rs = []) = (rs = [])"
  by (cases rs) simp_all

lemma acquireVersions_start:
  "\<exists>s1. acquireVersions K L s0 = (s1, \<lparr>acq_i = 9, promise = Pending, timer = Some 1000\<rparr>)
        \<and> acquiring s1 \<and> versionAcquisitionStatus s1 = 0"
  by (simp add: acquireVersions_def waitForDataAcquisition_def Let_def AllAcquired_def
      getLatestVersion_def getCurrentHmiVersion_def getCurrentBerryDriverVersion_def
      getCurrentTasmotaVersion_def mqtt_send_def settle_def acquiring_bits mask_eq_exp_minus_1)

lemma rounds_never_known:
  assumes "observations K L (s, a) rs = replicate (length rs) False"
    and "timer a = Some 1000" and "promise a = Pending" and "acq_i a = int m"
    and "length rs \<le> m" and "acquiring s"
  shows "\<exists>s' a'. rounds K L (s, a) rs = Inr (s', a')
           \<and> timer a' = Some 1000 \<and> acq_i a' = int m - int (length rs)
           \<and> promise a' = (if length rs = m \<and> rs \<noteq> []
                            then Rejected (versionAcquisitionStatus s') else Pending)
           \<and> acquiring s' \<and> (rs \<noteq> [] \<longrightarrow> \<not> all_known s')"
  using assms
proof (induction rs arbitrary: s a m)
  case Nil
  then show ?case by simp
next
  case (Cons evs rest)
  let ?s1 = "foldl (deliver K L) s evs"
  let ?a1 = "a\<lparr>timer := Some 1000, acq_i := acq_i a - 1,
                promise := (if acq_i a - 1 = 0
                            then settle (promise a) (Rejected (versionAcquisitionStatus ?s1))
                            else promise a)\<rparr>"
  from Cons.prems(1) have nk: "\<not> all_known ?s1" by simp
  have fires: "timer_fires K L (?s1, a) = Inr (?s1, ?a1)"
    using timer_fires_not_known [OF nk Cons.prems(2)] .
  have acq1: "acquiring ?s1" using Cons.prems(6) by (rule acquiring_foldl_deliver)
  from Cons.prems(5) have m: "0 < m" by simp
  show ?case
  proof (cases "m = 1")
    case True
    with Cons.prems(5) have "rest = []" by simp
    with True fires nk acq1 Cons.prems(3,4) show ?thesis
      by (simp add: settle_def)
  next
    case False
    with m have m2: "1 < m" by simp
    have obs: "observations K L (?s1, ?a1) rest = replicate (length rest) False"
      using Cons.prems(1) fires by simp
    have a1: "timer ?a1 = Some 1000" "promise ?a1 = Pending" "acq_i ?a1 = int (m - 1)"
      using Cons.prems(3,4) m2 by simp_all
    have len: "length rest \<le> m - 1" using Cons.prems(5) by simp
    from Cons.IH [OF obs a1 len acq1]
    obtain s' a' where r: "rounds K L (?s1, ?a1) rest = Inr (s', a')"
      and t: "timer a' = Some 1000" and i: "acq_i a' = int (m - 1) - int (length rest)"
      and p: "promise a' = (if length rest = m - 1 \<and> rest \<noteq> []
                             then Rejected (versionAcquisitionStatus s') else Pending)"
      and q: "acquiring s'" and n: "rest \<noteq> [] \<longrightarrow> \<not> all_known s'"
      by blast
    show ?thesis
    proof (cases "rest = []")
      case True
      with r have "s' = ?s1" "a' = ?a1" by simp_all
      with True fires nk acq1 a1 m2 show ?thesis by simp
    next
      case False
      with r t i p q n fires m2 show ?thesis by auto
    qed
  qed
qed

text \<open>
  The first call that finds the six versions known, after \<open>k\<close> that did not: the updater
  \<open>s0\<close> it finds is the last of \<open>polled\<close>, and the run ends as that call does.
\<close>

lemma rounds_first_known:
  assumes "observations K L (s, a) rs = replicate k False @ [True]"
    and "timer a = Some 1000" and "acquiring s"
  shows "\<exists>s0 a0 lt ct.
           s0 = last (polled K L (s, a) rs) \<and> all_known s0 \<and> acquiring s0
           \<and> tasmota (latest s0) = Some lt \<and> tasmota (current s0) = Some ct
           \<and> acq_i a0 = acq_i a - int k
           \<and> (k < nat (acq_i a) \<and> promise a = Pending \<longrightarrow> promise a0 = Pending)
           \<and> rounds K L (s, a) rs =
               (case semver_gt L (VersionData.version lt) (VersionData.version ct) of
                  Inl e \<Rightarrow> Inl (e, s0, a0\<lparr>timer := None\<rparr>)
                | Inr newer \<Rightarrow>
                    Inr (reactions K L (promise a0)
                           (settle (promise a0)
                              (Resolved (versionAcquisitionStatus (update_flags L newer s0))))
                           (update_flags L newer s0),
                         a0\<lparr>timer := None,
                            promise := settle (promise a0)
                              (Resolved (versionAcquisitionStatus (update_flags L newer s0)))\<rparr>))"
  using assms
proof (induction rs arbitrary: s a k)
  case Nil
  then show ?case by simp
next
  case (Cons evs rest)
  let ?s1 = "foldl (deliver K L) s evs"
  have acq1: "acquiring ?s1" using Cons.prems(3) by (rule acquiring_foldl_deliver)
  show ?case
  proof (cases k)
    case 0
    with Cons.prems(1) have known: "all_known ?s1" by simp
    from known acq1 obtain lt ct where
      v: "tasmota (latest ?s1) = Some lt" "tasmota (current ?s1) = Some ct"
      unfolding all_known_bits acquiring_bits by auto
    note f = timer_fires_known [OF known acq1 Cons.prems(2) v, of K L]
    show ?thesis
    proof (cases "semver_gt L (VersionData.version lt) (VersionData.version ct)")
      case (Inl e)
      with f have f': "timer_fires K L (?s1, a) = Inl (e, ?s1, a\<lparr>timer := None\<rparr>)" by simp
      then have "rounds K L (s, a) (evs # rest) = Inl (e, ?s1, a\<lparr>timer := None\<rparr>)"
        and "last (polled K L (s, a) (evs # rest)) = ?s1"
        by simp_all
      then show ?thesis
        using known acq1 v 0 Inl
        by (intro exI [of _ ?s1] exI [of _ a] exI [of _ lt] exI [of _ ct]) simp
    next
      case (Inr newer)
      let ?u = "update_flags L newer ?s1"
      let ?p = "settle (promise a) (Resolved (versionAcquisitionStatus ?u))"
      from Inr f have f': "timer_fires K L (?s1, a) =
          Inr (reactions K L (promise a) ?p ?u, a\<lparr>timer := None, promise := ?p\<rparr>)"
        by simp
      with Cons.prems(1) 0 have rest: "rest = []" by simp
      from f' rest have "rounds K L (s, a) (evs # rest) =
          Inr (reactions K L (promise a) ?p ?u, a\<lparr>timer := None, promise := ?p\<rparr>)"
        and "last (polled K L (s, a) (evs # rest)) = ?s1"
        by simp_all
      then show ?thesis
        using known acq1 v 0 Inr
        by (intro exI [of _ ?s1] exI [of _ a] exI [of _ lt] exI [of _ ct]) simp
    qed
  next
    case (Suc k')
    let ?a1 = "a\<lparr>timer := Some 1000, acq_i := acq_i a - 1,
                  promise := (if acq_i a - 1 = 0
                              then settle (promise a) (Rejected (versionAcquisitionStatus ?s1))
                              else promise a)\<rparr>"
    from Cons.prems(1) Suc have nk: "\<not> all_known ?s1" by simp
    have fires: "timer_fires K L (?s1, a) = Inr (?s1, ?a1)"
      using timer_fires_not_known [OF nk Cons.prems(2)] .
    have obs: "observations K L (?s1, ?a1) rest = replicate k' False @ [True]"
      using Cons.prems(1) Suc fires by simp
    have t1: "timer ?a1 = Some 1000" by simp
    from Cons.IH [OF obs t1 acq1]
    obtain s0 a0 lt ct where s0: "s0 = last (polled K L (?s1, ?a1) rest)"
      and facts: "all_known s0" "acquiring s0"
        "tasmota (latest s0) = Some lt" "tasmota (current s0) = Some ct"
      and i: "acq_i a0 = acq_i ?a1 - int k'"
      and p: "k' < nat (acq_i ?a1) \<and> promise ?a1 = Pending \<longrightarrow> promise a0 = Pending"
      and r: "rounds K L (?s1, ?a1) rest =
               (case semver_gt L (VersionData.version lt) (VersionData.version ct) of
                  Inl e \<Rightarrow> Inl (e, s0, a0\<lparr>timer := None\<rparr>)
                | Inr newer \<Rightarrow>
                    Inr (reactions K L (promise a0)
                           (settle (promise a0)
                              (Resolved (versionAcquisitionStatus (update_flags L newer s0))))
                           (update_flags L newer s0),
                         a0\<lparr>timer := None,
                            promise := settle (promise a0)
                              (Resolved (versionAcquisitionStatus (update_flags L newer s0)))\<rparr>))"
      by blast
    from obs have ne: "rest \<noteq> []" by (cases rest) simp_all
    then have pne: "polled K L (?s1, ?a1) rest \<noteq> []" by (cases rest) simp_all
    have l: "s0 = last (polled K L (s, a) (evs # rest))"
      using s0 fires pne by simp
    have pp: "k < nat (acq_i a) \<and> promise a = Pending \<longrightarrow> promise a0 = Pending"
      using p Suc by auto
    have rr: "rounds K L (s, a) (evs # rest) = rounds K L (?s1, ?a1) rest"
      using fires by simp
    have ii: "acq_i a0 = acq_i a - int k" using i Suc by simp
    show ?thesis
      using l facts ii pp r unfolding rr
      by (intro exI [of _ s0] exI [of _ a0] exI [of _ lt] exI [of _ ct]) blast
  qed
qed

lemma js_string_less_lexord: "js_string_less a b = lexicographically_less a b"
proof (induction a b rule: js_string_less.induct)
  case 1
  then show ?case by (simp add: lexicographically_less_def)
next
  case (2 y ys)
  then show ?case by (simp add: lexicographically_less_def)
next
  case (3 x xs)
  then show ?case by (simp add: lexicographically_less_def)
next
  case (4 x xs y ys)
  have "x \<noteq> y \<Longrightarrow> (of_char x :: nat) < of_char y \<or> (of_char y :: nat) < of_char x"
    using of_char_eq_iff [of x y, where ?'a = nat] by linarith
  with 4 show ?case
    by (auto simp add: lexicographically_less_def code_unit_less_def)
qed

lemma example_run:
  "map_sum id (\<lambda>sa. (versionAcquisitionStatus (fst sa),
                      map_option (map notifyId) (panelController (fst sa)), promise (snd sa)))
      (rounds example_constants example_library
        (checkForUpdates example_constants example_library example_updater) example_rounds)
    = Inr (511, Some [''update.tasmota''], Resolved 511)"
  by code_simp

text \<open>
  The run with the development build: the second call finds the six versions known and
  \<^verbatim>\<open>semver.gt\<close> raises on \<^verbatim>\<open>13.1.0.1\<close>. The exception leaves the call with the status at 63, no
  update flag set although the berry driver and the HMI firmware have newer versions, no
  notification shown, the promise pending and no timer waiting.
\<close>

lemma example_run_development:
  "map_sum (\<lambda>esa. (fst esa, versionAcquisitionStatus (fst (snd esa)),
                     map_option (map notifyId) (panelController (fst (snd esa))),
                     promise (snd (snd esa)), timer (snd (snd esa)), acq_i (snd (snd esa))))
           (\<lambda>sa. versionAcquisitionStatus (fst sa))
      (rounds example_constants example_library
        (checkForUpdates example_constants example_library example_updater)
        example_rounds_development)
    = Inl (TypeError, 63, Some [], Pending, None, 8)"
  by code_simp

text \<open>
  C7. \<open>acquireVersions\<close> makes the first call of \<open>waitForDataAcquisition\<close> itself and each
  later one a second after the one before. When one of the ten calls finds the six
  versions known (the calls of the \<open>k\<close> rounds before it did not, \<open>k < 9\<close>) and \<^verbatim>\<open>semver.gt\<close>
  answers for the two Tasmota versions, the promise is resolved in that call and no further
  call is scheduled. When \<^verbatim>\<open>semver.gt\<close> raises instead, the exception leaves that call: the
  promise is not resolved, it stays pending, no further call is scheduled, and the updater
  is as the call found it. While fewer than ten calls have been made and none found the
  versions known, the promise is pending and the next call waits 1000 ms. When the tenth
  call does not find them known either, the promise is rejected with the status, in which
  a known flag is missing.
\<close>

theorem acquireVersions_polls:
  "(observations K L (acquireVersions K L s) rs = replicate k False @ [True] \<and> k < 9
      \<and> semver_answers L (last (polled K L (acquireVersions K L s) rs)) \<longrightarrow>
      (\<exists>s' a'. rounds K L (acquireVersions K L s) rs = Inr (s', a')
         \<and> promise a' = Resolved (versionAcquisitionStatus s') \<and> timer a' = None
         \<and> acq_i a' = 9 - int k))
   \<and> (observations K L (acquireVersions K L s) rs = replicate k False @ [True] \<and> k < 9
      \<and> \<not> semver_answers L (last (polled K L (acquireVersions K L s) rs)) \<longrightarrow>
      (\<exists>e a'. rounds K L (acquireVersions K L s) rs
                 = Inl (e, last (polled K L (acquireVersions K L s) rs), a')
         \<and> promise a' = Pending \<and> timer a' = None \<and> acq_i a' = 9 - int k))
   \<and> (observations K L (acquireVersions K L s) rs = replicate (length rs) False \<and> length rs < 9 \<longrightarrow>
      (\<exists>s' a'. rounds K L (acquireVersions K L s) rs = Inr (s', a')
         \<and> promise a' = Pending \<and> timer a' = Some 1000))
   \<and> (observations K L (acquireVersions K L s) rs = replicate (length rs) False \<and> length rs = 9 \<longrightarrow>
      (\<exists>s' a'. rounds K L (acquireVersions K L s) rs = Inr (s', a')
         \<and> promise a' = Rejected (versionAcquisitionStatus s') \<and> \<not> all_known s'
         \<and> acq_i a' = 0))"
proof -
  obtain s1 where start: "acquireVersions K L s = (s1, \<lparr>acq_i = 9, promise = Pending, timer = Some 1000\<rparr>)"
    and acq: "acquiring s1"
    using acquireVersions_start [of K L s] by blast
  let ?a = "\<lparr>acq_i = 9, promise = Pending, timer = Some 1000\<rparr>"
  have t: "timer ?a = Some 1000" and p: "promise ?a = Pending" and i: "acq_i ?a = int 9"
    by simp_all
  have first: "\<exists>a0 lt ct.
           tasmota (latest (last (polled K L (s1, ?a) rs))) = Some lt
           \<and> tasmota (current (last (polled K L (s1, ?a) rs))) = Some ct
           \<and> acq_i a0 = 9 - int k \<and> promise a0 = Pending
           \<and> rounds K L (s1, ?a) rs =
               (case semver_gt L (VersionData.version lt) (VersionData.version ct) of
                  Inl e \<Rightarrow> Inl (e, last (polled K L (s1, ?a) rs), a0\<lparr>timer := None\<rparr>)
                | Inr newer \<Rightarrow>
                    Inr (reactions K L (promise a0)
                           (settle (promise a0)
                              (Resolved (versionAcquisitionStatus
                                 (update_flags L newer (last (polled K L (s1, ?a) rs))))))
                           (update_flags L newer (last (polled K L (s1, ?a) rs))),
                         a0\<lparr>timer := None,
                            promise := settle (promise a0)
                              (Resolved (versionAcquisitionStatus
                                 (update_flags L newer (last (polled K L (s1, ?a) rs)))))\<rparr>))"
    if obs: "observations K L (s1, ?a) rs = replicate k False @ [True]" and k: "k < 9"
  proof -
    from rounds_first_known [OF obs t acq]
    obtain s0 a0 lt ct where s0: "s0 = last (polled K L (s1, ?a) rs)"
      and v: "tasmota (latest s0) = Some lt" "tasmota (current s0) = Some ct"
      and i0: "acq_i a0 = acq_i ?a - int k"
      and p0: "k < nat (acq_i ?a) \<and> promise ?a = Pending \<longrightarrow> promise a0 = Pending"
      and r: "rounds K L (s1, ?a) rs =
               (case semver_gt L (VersionData.version lt) (VersionData.version ct) of
                  Inl e \<Rightarrow> Inl (e, s0, a0\<lparr>timer := None\<rparr>)
                | Inr newer \<Rightarrow>
                    Inr (reactions K L (promise a0)
                           (settle (promise a0)
                              (Resolved (versionAcquisitionStatus (update_flags L newer s0))))
                           (update_flags L newer s0),
                         a0\<lparr>timer := None,
                            promise := settle (promise a0)
                              (Resolved (versionAcquisitionStatus (update_flags L newer s0)))\<rparr>))"
      by blast
    from p0 k have "promise a0 = Pending" by simp
    with v i0 r show ?thesis unfolding s0
      by (intro exI [of _ a0] exI [of _ lt] exI [of _ ct]) simp
  qed
  have never: "\<exists>s' a'. rounds K L (s1, ?a) rs = Inr (s', a')
           \<and> timer a' = Some 1000 \<and> acq_i a' = int 9 - int (length rs)
           \<and> promise a' = (if length rs = 9 \<and> rs \<noteq> []
                            then Rejected (versionAcquisitionStatus s') else Pending)
           \<and> acquiring s' \<and> (rs \<noteq> [] \<longrightarrow> \<not> all_known s')"
    if obs: "observations K L (s1, ?a) rs = replicate (length rs) False" and len: "length rs \<le> 9"
    using rounds_never_known [OF obs t p i len acq] .
  show ?thesis
    unfolding start
  proof (intro conjI impI)
    assume a: "observations K L (s1, ?a) rs = replicate k False @ [True] \<and> k < 9
      \<and> semver_answers L (last (polled K L (s1, ?a) rs))"
    with first obtain a0 lt ct where
      v: "tasmota (latest (last (polled K L (s1, ?a) rs))) = Some lt"
         "tasmota (current (last (polled K L (s1, ?a) rs))) = Some ct"
      and i0: "acq_i a0 = 9 - int k" and p0: "promise a0 = Pending"
      and r: "rounds K L (s1, ?a) rs =
               (case semver_gt L (VersionData.version lt) (VersionData.version ct) of
                  Inl e \<Rightarrow> Inl (e, last (polled K L (s1, ?a) rs), a0\<lparr>timer := None\<rparr>)
                | Inr newer \<Rightarrow>
                    Inr (reactions K L (promise a0)
                           (settle (promise a0)
                              (Resolved (versionAcquisitionStatus
                                 (update_flags L newer (last (polled K L (s1, ?a) rs))))))
                           (update_flags L newer (last (polled K L (s1, ?a) rs))),
                         a0\<lparr>timer := None,
                            promise := settle (promise a0)
                              (Resolved (versionAcquisitionStatus
                                 (update_flags L newer (last (polled K L (s1, ?a) rs)))))\<rparr>))"
      by blast
    from a v obtain newer where
      "semver_gt L (VersionData.version lt) (VersionData.version ct) = Inr newer"
      by (auto simp add: semver_answers_def split: sum.split_asm)
    with r i0 p0
    show "\<exists>s' a'. rounds K L (s1, ?a) rs = Inr (s', a')
         \<and> promise a' = Resolved (versionAcquisitionStatus s') \<and> timer a' = None
         \<and> acq_i a' = 9 - int k"
      by (simp add: settle_def)
  next
    assume a: "observations K L (s1, ?a) rs = replicate k False @ [True] \<and> k < 9
      \<and> \<not> semver_answers L (last (polled K L (s1, ?a) rs))"
    with first obtain a0 lt ct where
      v: "tasmota (latest (last (polled K L (s1, ?a) rs))) = Some lt"
         "tasmota (current (last (polled K L (s1, ?a) rs))) = Some ct"
      and i0: "acq_i a0 = 9 - int k" and p0: "promise a0 = Pending"
      and r: "rounds K L (s1, ?a) rs =
               (case semver_gt L (VersionData.version lt) (VersionData.version ct) of
                  Inl e \<Rightarrow> Inl (e, last (polled K L (s1, ?a) rs), a0\<lparr>timer := None\<rparr>)
                | Inr newer \<Rightarrow>
                    Inr (reactions K L (promise a0)
                           (settle (promise a0)
                              (Resolved (versionAcquisitionStatus
                                 (update_flags L newer (last (polled K L (s1, ?a) rs))))))
                           (update_flags L newer (last (polled K L (s1, ?a) rs))),
                         a0\<lparr>timer := None,
                            promise := settle (promise a0)
                              (Resolved (versionAcquisitionStatus
                                 (update_flags L newer (last (polled K L (s1, ?a) rs)))))\<rparr>))"
      by blast
    from a v obtain e where
      "semver_gt L (VersionData.version lt) (VersionData.version ct) = Inl e"
      by (auto simp add: semver_answers_def split: sum.split_asm)
    with r i0 p0
    show "\<exists>e a'. rounds K L (s1, ?a) rs = Inl (e, last (polled K L (s1, ?a) rs), a')
         \<and> promise a' = Pending \<and> timer a' = None \<and> acq_i a' = 9 - int k"
      by simp
  next
    assume a: "observations K L (s1, ?a) rs = replicate (length rs) False \<and> length rs < 9"
    then have "length rs \<le> 9" by simp
    with a never have "\<exists>s' a'. rounds K L (s1, ?a) rs = Inr (s', a')
           \<and> timer a' = Some 1000 \<and> acq_i a' = int 9 - int (length rs)
           \<and> promise a' = (if length rs = 9 \<and> rs \<noteq> []
                            then Rejected (versionAcquisitionStatus s') else Pending)
           \<and> acquiring s' \<and> (rs \<noteq> [] \<longrightarrow> \<not> all_known s')" by blast
    with a show "\<exists>s' a'. rounds K L (s1, ?a) rs = Inr (s', a')
         \<and> promise a' = Pending \<and> timer a' = Some 1000" by auto
  next
    assume a: "observations K L (s1, ?a) rs = replicate (length rs) False \<and> length rs = 9"
    then have "length rs \<le> 9" by simp
    with a never have "\<exists>s' a'. rounds K L (s1, ?a) rs = Inr (s', a')
           \<and> timer a' = Some 1000 \<and> acq_i a' = int 9 - int (length rs)
           \<and> promise a' = (if length rs = 9 \<and> rs \<noteq> []
                            then Rejected (versionAcquisitionStatus s') else Pending)
           \<and> acquiring s' \<and> (rs \<noteq> [] \<longrightarrow> \<not> all_known s')" by blast
    with a show "\<exists>s' a'. rounds K L (s1, ?a) rs = Inr (s', a')
         \<and> promise a' = Rejected (versionAcquisitionStatus s') \<and> \<not> all_known s'
         \<and> acq_i a' = 0" by auto
  qed
qed

theorem acquireVersions_polls_witness:
  "(\<exists>s' a'. rounds example_constants example_library
               (acquireVersions example_constants example_library example_updater) example_rounds
             = Inr (s', a')
           \<and> promise a' = Resolved (versionAcquisitionStatus s') \<and> timer a' = None
           \<and> acq_i a' = 9 - int 1)
   \<and> (\<exists>e a'. rounds example_constants example_library
               (acquireVersions example_constants example_library example_updater)
               example_rounds_development
             = Inl (e, last (polled example_constants example_library
                          (acquireVersions example_constants example_library example_updater)
                          example_rounds_development), a')
           \<and> promise a' = Pending \<and> timer a' = None \<and> acq_i a' = 9 - int 1)
   \<and> (\<exists>s' a'. rounds example_constants example_library
               (acquireVersions example_constants example_library example_updater) (replicate 3 [])
             = Inr (s', a')
           \<and> promise a' = Pending \<and> timer a' = Some 1000)
   \<and> (\<exists>s' a'. rounds example_constants example_library
               (acquireVersions example_constants example_library example_updater) (replicate 9 [])
             = Inr (s', a')
           \<and> promise a' = Rejected (versionAcquisitionStatus s') \<and> \<not> all_known s'
           \<and> acq_i a' = 0)"
proof -
  have h1: "observations example_constants example_library
      (acquireVersions example_constants example_library example_updater) example_rounds
    = replicate 1 False @ [True] \<and> (1::nat) < 9
    \<and> semver_answers example_library
        (last (polled example_constants example_library
           (acquireVersions example_constants example_library example_updater) example_rounds))"
    by code_simp
  have h2: "observations example_constants example_library
      (acquireVersions example_constants example_library example_updater)
      example_rounds_development
    = replicate 1 False @ [True] \<and> (1::nat) < 9
    \<and> \<not> semver_answers example_library
        (last (polled example_constants example_library
           (acquireVersions example_constants example_library example_updater)
           example_rounds_development))"
    by code_simp
  have h3: "observations example_constants example_library
      (acquireVersions example_constants example_library example_updater) (replicate 3 [])
    = replicate (length (replicate 3 ([] :: incoming list))) False
    \<and> length (replicate 3 ([] :: incoming list)) < 9"
    by code_simp
  have h4: "observations example_constants example_library
      (acquireVersions example_constants example_library example_updater) (replicate 9 [])
    = replicate (length (replicate 9 ([] :: incoming list))) False
    \<and> length (replicate 9 ([] :: incoming list)) = 9"
    by code_simp
  note c1 = mp [OF conjunct1 [OF acquireVersions_polls
      [of example_constants example_library example_updater example_rounds 1]] h1]
  note c2 = mp [OF conjunct1 [OF conjunct2 [OF acquireVersions_polls
      [of example_constants example_library example_updater example_rounds_development 1]]] h2]
  note c3 = mp [OF conjunct1 [OF conjunct2 [OF conjunct2 [OF acquireVersions_polls
      [of example_constants example_library example_updater "replicate 3 []" 0]]]] h3]
  note c4 = mp [OF conjunct2 [OF conjunct2 [OF conjunct2 [OF acquireVersions_polls
      [of example_constants example_library example_updater "replicate 9 []" 0]]]] h4]
  show ?thesis by (intro conjI c1 c2 c3 c4)
qed

text \<open>
  C8. The call that first finds the six versions known has the six records, the latest HMI
  version's with a string \<open>l\<close> as internal version. When \<^verbatim>\<open>semver.gt\<close> answers for the two
  Tasmota versions, the three update flags are computed: the Tasmota flag is set if and
  only if the answer is true; the berry-driver flag if and only if the current version
  string is lexicographically less than the latest; the HMI flag, when the current internal
  version is a string, if and only if that string is lexicographically less than \<open>l\<close> (when
  it is \<^verbatim>\<open>undefined\<close> the flag is not set, and when it is \<^verbatim>\<open>null\<close> the flag is set if and only
  if \<open>l\<close> is a positive number). When \<^verbatim>\<open>semver.gt\<close> raises, no update flag is computed: the
  exception leaves the call, and the three flags stay unset whatever the berry-driver and
  HMI versions are.
\<close>

theorem update_flags_comparisons:
  assumes "observations K L (acquireVersions K L s) rs = replicate k False @ [True]"
  shows "\<exists>s0 lt ct lb cb lh ch l.
           s0 = last (polled K L (acquireVersions K L s) rs)
           \<and> tasmota (latest s0) = Some lt \<and> tasmota (current s0) = Some ct
           \<and> berryDriver (latest s0) = Some lb \<and> berryDriver (current s0) = Some cb
           \<and> hmi (latest s0) = Some lh \<and> hmi (current s0) = Some ch
           \<and> internalVersion lh = Str l
           \<and> (case semver_gt L (VersionData.version lt) (VersionData.version ct) of
                Inr newer \<Rightarrow>
                  (\<exists>s' a'. rounds K L (acquireVersions K L s) rs = Inr (s', a')
                     \<and> current s' = current s0 \<and> latest s' = latest s0
                     \<and> (versionAcquisitionStatus s' AND TasmotaUpdateAvailable \<noteq> 0) = newer
                     \<and> (versionAcquisitionStatus s' AND BerryDriverUpdateAvailable \<noteq> 0)
                         = lexicographically_less (VersionData.version cb) (VersionData.version lb)
                     \<and> (versionAcquisitionStatus s' AND HmiUpdateAvailable \<noteq> 0)
                         = (case internalVersion ch of
                              Str c \<Rightarrow> lexicographically_less c l
                            | Undefined \<Rightarrow> False
                            | Null \<Rightarrow> sign_of_Number L l = Positive))
              | Inl e \<Rightarrow>
                  (\<exists>a'. rounds K L (acquireVersions K L s) rs = Inl (e, s0, a')
                     \<and> versionAcquisitionStatus s0 AND TasmotaUpdateAvailable = 0
                     \<and> versionAcquisitionStatus s0 AND BerryDriverUpdateAvailable = 0
                     \<and> versionAcquisitionStatus s0 AND HmiUpdateAvailable = 0))"
proof -
  obtain s1 where start: "acquireVersions K L s = (s1, \<lparr>acq_i = 9, promise = Pending, timer = Some 1000\<rparr>)"
    and acq: "acquiring s1"
    using acquireVersions_start [of K L s] by blast
  let ?a = "\<lparr>acq_i = 9, promise = Pending, timer = Some 1000\<rparr>"
  have t: "timer ?a = Some 1000" by simp
  from assms have obs: "observations K L (s1, ?a) rs = replicate k False @ [True]"
    by (simp add: start)
  from rounds_first_known [OF obs t acq]
  obtain s0 a0 lt ct where s0: "s0 = last (polled K L (s1, ?a) rs)"
    and known: "all_known s0" and acq0: "acquiring s0"
    and vt: "tasmota (latest s0) = Some lt" "tasmota (current s0) = Some ct"
    and r: "rounds K L (s1, ?a) rs =
               (case semver_gt L (VersionData.version lt) (VersionData.version ct) of
                  Inl e \<Rightarrow> Inl (e, s0, a0\<lparr>timer := None\<rparr>)
                | Inr newer \<Rightarrow>
                    Inr (reactions K L (promise a0)
                           (settle (promise a0)
                              (Resolved (versionAcquisitionStatus (update_flags L newer s0))))
                           (update_flags L newer s0),
                         a0\<lparr>timer := None,
                            promise := settle (promise a0)
                              (Resolved (versionAcquisitionStatus (update_flags L newer s0)))\<rparr>))"
    by blast
  from known acq0 obtain lb cb lh ch l where v:
    "berryDriver (latest s0) = Some lb" "berryDriver (current s0) = Some cb"
    "hmi (latest s0) = Some lh" "hmi (current s0) = Some ch"
    and l: "internalVersion lh = Str l"
    unfolding all_known_bits acquiring_bits by auto
  note bits = update_flags_bits [OF acq0 v, of L]
  have flags: "(versionAcquisitionStatus s0 AND TasmotaUpdateAvailable = 0)
      \<and> (versionAcquisitionStatus s0 AND BerryDriverUpdateAvailable = 0)
      \<and> (versionAcquisitionStatus s0 AND HmiUpdateAvailable = 0)"
    using acq0 by (simp add: acquiring_def no_update_flags_def)
  have "case semver_gt L (VersionData.version lt) (VersionData.version ct) of
                Inr newer \<Rightarrow>
                  (\<exists>s' a'. rounds K L (s1, ?a) rs = Inr (s', a')
                     \<and> current s' = current s0 \<and> latest s' = latest s0
                     \<and> (versionAcquisitionStatus s' AND TasmotaUpdateAvailable \<noteq> 0) = newer
                     \<and> (versionAcquisitionStatus s' AND BerryDriverUpdateAvailable \<noteq> 0)
                         = lexicographically_less (VersionData.version cb) (VersionData.version lb)
                     \<and> (versionAcquisitionStatus s' AND HmiUpdateAvailable \<noteq> 0)
                         = (case internalVersion ch of
                              Str c \<Rightarrow> lexicographically_less c l
                            | Undefined \<Rightarrow> False
                            | Null \<Rightarrow> sign_of_Number L l = Positive))
              | Inl e \<Rightarrow>
                  (\<exists>a'. rounds K L (s1, ?a) rs = Inl (e, s0, a')
                     \<and> versionAcquisitionStatus s0 AND TasmotaUpdateAvailable = 0
                     \<and> versionAcquisitionStatus s0 AND BerryDriverUpdateAvailable = 0
                     \<and> versionAcquisitionStatus s0 AND HmiUpdateAvailable = 0)"
  proof (cases "semver_gt L (VersionData.version lt) (VersionData.version ct)")
    case (Inl e)
    with r flags show ?thesis by simp
  next
    case (Inr newer)
    have h: "js_gt L (internalVersion lh) (internalVersion ch)
               = (case internalVersion ch of
                    Str c \<Rightarrow> lexicographically_less c l
                  | Undefined \<Rightarrow> False
                  | Null \<Rightarrow> sign_of_Number L l = Positive)"
      unfolding l js_gt_Str by (simp add: js_string_less_lexord split: nullable.split)
    from Inr r bits h show ?thesis
      by (simp add: flag_bits js_string_less_lexord)
  qed
  with s0 vt v l show ?thesis unfolding start by blast
qed

theorem update_flags_comparisons_witness:
  "(\<exists>s0 lt ct lb cb lh ch l.
      s0 = last (polled example_constants example_library
                   (acquireVersions example_constants example_library example_updater)
                   example_rounds)
      \<and> tasmota (latest s0) = Some lt \<and> tasmota (current s0) = Some ct
      \<and> berryDriver (latest s0) = Some lb \<and> berryDriver (current s0) = Some cb
      \<and> hmi (latest s0) = Some lh \<and> hmi (current s0) = Some ch
      \<and> internalVersion lh = Str l
      \<and> (case semver_gt example_library (VersionData.version lt) (VersionData.version ct) of
           Inr newer \<Rightarrow>
             (\<exists>s' a'. rounds example_constants example_library
                          (acquireVersions example_constants example_library example_updater)
                          example_rounds = Inr (s', a')
                \<and> current s' = current s0 \<and> latest s' = latest s0
                \<and> (versionAcquisitionStatus s' AND TasmotaUpdateAvailable \<noteq> 0) = newer
                \<and> (versionAcquisitionStatus s' AND BerryDriverUpdateAvailable \<noteq> 0)
                    = lexicographically_less (VersionData.version cb) (VersionData.version lb)
                \<and> (versionAcquisitionStatus s' AND HmiUpdateAvailable \<noteq> 0)
                    = (case internalVersion ch of
                         Str c \<Rightarrow> lexicographically_less c l
                       | Undefined \<Rightarrow> False
                       | Null \<Rightarrow> sign_of_Number example_library l = Positive))
         | Inl e \<Rightarrow>
             (\<exists>a'. rounds example_constants example_library
                       (acquireVersions example_constants example_library example_updater)
                       example_rounds = Inl (e, s0, a')
                \<and> versionAcquisitionStatus s0 AND TasmotaUpdateAvailable = 0
                \<and> versionAcquisitionStatus s0 AND BerryDriverUpdateAvailable = 0
                \<and> versionAcquisitionStatus s0 AND HmiUpdateAvailable = 0)))
   \<and> (\<exists>s0 lt ct lb cb lh ch l.
      s0 = last (polled example_constants example_library
                   (acquireVersions example_constants example_library example_updater)
                   example_rounds_development)
      \<and> tasmota (latest s0) = Some lt \<and> tasmota (current s0) = Some ct
      \<and> berryDriver (latest s0) = Some lb \<and> berryDriver (current s0) = Some cb
      \<and> hmi (latest s0) = Some lh \<and> hmi (current s0) = Some ch
      \<and> internalVersion lh = Str l
      \<and> (case semver_gt example_library (VersionData.version lt) (VersionData.version ct) of
           Inr newer \<Rightarrow>
             (\<exists>s' a'. rounds example_constants example_library
                          (acquireVersions example_constants example_library example_updater)
                          example_rounds_development = Inr (s', a')
                \<and> current s' = current s0 \<and> latest s' = latest s0
                \<and> (versionAcquisitionStatus s' AND TasmotaUpdateAvailable \<noteq> 0) = newer
                \<and> (versionAcquisitionStatus s' AND BerryDriverUpdateAvailable \<noteq> 0)
                    = lexicographically_less (VersionData.version cb) (VersionData.version lb)
                \<and> (versionAcquisitionStatus s' AND HmiUpdateAvailable \<noteq> 0)
                    = (case internalVersion ch of
                         Str c \<Rightarrow> lexicographically_less c l
                       | Undefined \<Rightarrow> False
                       | Null \<Rightarrow> sign_of_Number example_library l = Positive))
         | Inl e \<Rightarrow>
             (\<exists>a'. rounds example_constants example_library
                       (acquireVersions example_constants example_library example_updater)
                       example_rounds_development = Inl (e, s0, a')
                \<and> versionAcquisitionStatus s0 AND TasmotaUpdateAvailable = 0
                \<and> versionAcquisitionStatus s0 AND BerryDriverUpdateAvailable = 0
                \<and> versionAcquisitionStatus s0 AND HmiUpdateAvailable = 0)))"
proof -
  have h1: "observations example_constants example_library
      (acquireVersions example_constants example_library example_updater) example_rounds
    = replicate 1 False @ [True]"
    by code_simp
  have h2: "observations example_constants example_library
      (acquireVersions example_constants example_library example_updater)
      example_rounds_development
    = replicate 1 False @ [True]"
    by code_simp
  from update_flags_comparisons [OF h1] update_flags_comparisons [OF h2]
  show ?thesis by (rule conjI)
qed

end
